theory Spec2Isabelle
  imports Complex_Main
begin

section \<open>Strings, lengths and colours\<close>

text \<open>
  A Python \<^verbatim>\<open>str\<close> is a sequence of Unicode code points, and the scripts use code points
  beyond Latin-1 (the bullet U+2022, the thin space U+2009, the check mark U+2713), so a
  string is modelled as the list of its code points. \<open>ascii\<close> embeds an ASCII literal.
\<close>

type_synonym pystr = "nat list"

definition ascii :: "string \<Rightarrow> pystr" where
  "ascii s = map of_char s"

definition STAR :: nat where "STAR = 42"
definition SPACE :: nat where "SPACE = 32"
definition AT_SIGN :: nat where "AT_SIGN = 64"
definition NBSP :: nat where "NBSP = 160"
definition THIN_SPACE :: nat where "THIN_SPACE = 8201"
definition BULLET :: nat where "BULLET = 8226"
definition CHECK_MARK :: nat where "CHECK_MARK = 10003"

text \<open>
  \<^verbatim>\<open>text.split('**')\<close>: Python scans from the left for non-overlapping occurrences of the
  separator; the result always has one more element than the number of occurrences found.
  \<open>split2 d\<close> splits at the two-element separator \<open>[d, d]\<close>.
\<close>

fun split2 :: "'a \<Rightarrow> 'a list \<Rightarrow> 'a list list" where
  "split2 d (a # b # cs) =
     (if a = d \<and> b = d then [] # split2 d cs
      else (case split2 d (b # cs) of
              p # ps \<Rightarrow> (a # p) # ps
            | [] \<Rightarrow> [[a]]))"
| "split2 d cs = [cs]"

text \<open>\<^verbatim>\<open>'**' in text\<close>: the separator occurs as a contiguous substring.\<close>

fun contains2 :: "'a \<Rightarrow> 'a list \<Rightarrow> bool" where
  "contains2 d (a # b # cs) = ((a = d \<and> b = d) \<or> contains2 d (b # cs))"
| "contains2 d cs = False"

text \<open>\<^verbatim>\<open>text.replace(old, new)\<close> for single code points: every occurrence is replaced.\<close>

definition replace_char :: "nat \<Rightarrow> nat \<Rightarrow> pystr \<Rightarrow> pystr" where
  "replace_char old new s = map (\<lambda>c. if c = old then new else c) s"

text \<open>
  Lengths keep the unit constructor the source wrote (\<^verbatim>\<open>Inches(1.5)\<close>, \<^verbatim>\<open>Pt(8.5)\<close>); the
  decimal literal is kept as the exact rational. \<open>Twips\<close> is the unit of the raw
  \<^verbatim>\<open>w:ind\<close> attributes written by \<^verbatim>\<open>add_section_header\<close>. \<open>emu\<close> is python-docx's
  conversion to English Metric Units (\<^verbatim>\<open>int(x * 914400)\<close>, \<^verbatim>\<open>int(x * 12700)\<close>, 635 per
  twip), with \<^verbatim>\<open>int\<close> truncating toward zero; it is only used to compare two lengths.
\<close>

datatype length = Inches rat | Pt rat | Twips int

definition trunc :: "rat \<Rightarrow> int" where
  "trunc x = (if 0 \<le> x then \<lfloor>x\<rfloor> else \<lceil>x\<rceil>)"

fun emu :: "length \<Rightarrow> int" where
  "emu (Inches x) = trunc (x * 914400)"
| "emu (Pt x) = trunc (x * 12700)"
| "emu (Twips n) = n * 635"

datatype rgb = RGBColor nat nat nat

datatype alignment = LEFT | CENTER

datatype valign = TOP | VCENTER

section \<open>The document tree of python-docx\<close>

text \<open>
  A run carries its text, the character formatting the scripts set, the raw
  \<^verbatim>\<open>w:noBreak\<close> attribute set on the run element, and the inline picture added by
  \<^verbatim>\<open>add_picture\<close> (path, width, height). Properties never assigned are \<open>None\<close>.
  Assigning a property is a plain store: the sizes and colours passed to the builders are
  taken to be values python-docx accepts, as the positive sizes of the scripts are. Its
  range checks are part of the model only in \<^verbatim>\<open>set_margins\<close>, where a claim is about them.
\<close>

record run =
  run_text :: pystr
  run_bold :: "bool option"
  font_size :: "length option"
  font_name :: "pystr option"
  font_color :: "rgb option"
  noBreak :: bool
  picture :: "(pystr \<times> length \<times> length) option"

text \<open>The bottom border element built by hand in \<^verbatim>\<open>add_section_header\<close>: val, sz, space, color.\<close>

record bottom_border =
  bdr_val :: pystr
  bdr_sz :: pystr
  bdr_space :: pystr
  bdr_color :: pystr

text \<open>
  A paragraph: its runs in order, the properties assigned through \<^verbatim>\<open>paragraph_format\<close>
  and \<^verbatim>\<open>alignment\<close>, and the extra \<^verbatim>\<open>w:pPr\<close> elements that the scripts insert at index 0
  of the paragraph element (each holding one \<^verbatim>\<open>w:pBdr/w:bottom\<close>).
\<close>

record "paragraph" =
  runs :: "run list"
  par_alignment :: "alignment option"
  space_before :: "length option"
  space_after :: "length option"
  line_spacing :: "rat option"
  left_indent :: "length option"
  right_indent :: "length option"
  first_line_indent :: "length option"
  widow_control :: "bool option"
  keep_together :: "bool option"
  inserted_pPr :: "bottom_border list"

text \<open>
  The children of a cell's \<^verbatim>\<open>w:tcPr\<close> that matter here: the width python-docx writes
  when it creates the cell, the shading and the cell margins the scripts append.
\<close>

datatype tcPr_child =
    TcW
  | Shd pystr
  | TcMar rat rat rat rat

record cell =
  paragraphs :: "paragraph list"
  tcPr :: "tcPr_child list option"
  vertical_alignment :: "valign option"

definition new_run :: "pystr \<Rightarrow> run" where
  "new_run t = \<lparr>run_text = t, run_bold = None, font_size = None, font_name = None,
     font_color = None, noBreak = False, picture = None\<rparr>"

definition new_paragraph :: "paragraph" where
  "new_paragraph = \<lparr>runs = [], par_alignment = None, space_before = None,
     space_after = None, line_spacing = None, left_indent = None, right_indent = None,
     first_line_indent = None, widow_control = None, keep_together = None,
     inserted_pPr = []\<rparr>"

text \<open>
  \<^verbatim>\<open>p.add_run(...)\<close> appends a run to the paragraph and returns a proxy for it; the
  statements that follow in the source style that run and nothing else, so the model
  appends the run with the styling already applied. \<^verbatim>\<open>cell.add_paragraph()\<close> is treated
  the same way: the paragraph value is built by the statements of the builder and appended
  at the place where the source called \<^verbatim>\<open>add_paragraph\<close>.
\<close>

definition add_run :: "paragraph \<Rightarrow> run \<Rightarrow> paragraph" where
  "add_run p r = p\<lparr>runs := runs p @ [r]\<rparr>"

definition add_paragraph :: "cell \<Rightarrow> paragraph \<Rightarrow> cell" where
  "add_paragraph c p = c\<lparr>paragraphs := paragraphs c @ [p]\<rparr>"

section \<open>Bulleted items\<close>

text \<open>
  \<^verbatim>\<open>add_compact_bullet(cell, text)\<close> of create_resume_twocolumn3.py and
  create_resume_app_developer.py (the two copies are identical). The loop over
  \<^verbatim>\<open>enumerate(parts)\<close> is a recursion carrying the index and the paragraph.
\<close>

definition Calibri :: pystr where
  "Calibri = ascii ''Calibri''"

definition compact_bullet_run :: run where
  "compact_bullet_run = (new_run [BULLET, SPACE])
     \<lparr>font_size := Some (Pt 9), font_name := Some Calibri,
      font_color := Some (RGBColor 0 0 0), run_bold := Some True\<rparr>"

definition compact_plain_run :: "pystr \<Rightarrow> run" where
  "compact_plain_run part = (new_run part)
     \<lparr>font_size := Some (Pt 9), font_name := Some Calibri,
      font_color := Some (RGBColor 0 0 0)\<rparr>"

definition compact_bold_run :: "pystr \<Rightarrow> run" where
  "compact_bold_run part = (new_run part)
     \<lparr>font_size := Some (Pt 9), font_name := Some Calibri, run_bold := Some True,
      font_color := Some (RGBColor 0 51 102)\<rparr>"

fun compact_bullet_loop :: "nat \<Rightarrow> pystr list \<Rightarrow> paragraph \<Rightarrow> paragraph" where
  "compact_bullet_loop i [] p = p"
| "compact_bullet_loop i (part # parts) p =
     compact_bullet_loop (Suc i) parts
       (if i mod 2 = 0 then (if part \<noteq> [] then add_run p (compact_plain_run part) else p)
        else add_run p (compact_bold_run part))"

definition add_compact_bullet :: "cell \<Rightarrow> pystr \<Rightarrow> cell \<times> paragraph" where
  "add_compact_bullet c text =
     (let p = add_run new_paragraph compact_bullet_run;
          p = p\<lparr>space_after := Some (Pt 1.5), left_indent := Some (Inches 0.2),
                line_spacing := Some 1.05\<rparr>;
          p = (if contains2 STAR text
               then compact_bullet_loop 0 (split2 STAR text) p
               else add_run p (compact_plain_run text))
      in (add_paragraph c p, p))"

text \<open>
  \<^verbatim>\<open>add_bullet(cell, text, size)\<close> of create_resume_rajnish_template.py and
  create_resume_react_template.py. The two copies differ in two spacing constants only,
  selected here by the template.
\<close>

datatype template = Rajnish | React

definition SANS_SERIF_FONT :: pystr where
  "SANS_SERIF_FONT = ascii ''Times New Roman''"

definition SECTION_ACCENT_COLOR :: pystr where
  "SECTION_ACCENT_COLOR = ascii ''2D5A5A''"

definition bullet_glyph_run :: "length \<Rightarrow> run" where
  "bullet_glyph_run sz = (new_run [BULLET, SPACE])
     \<lparr>font_size := Some sz, font_name := Some SANS_SERIF_FONT,
      font_color := Some (RGBColor 0 0 0), run_bold := Some True\<rparr>"

definition bullet_part_run :: "length \<Rightarrow> nat \<Rightarrow> pystr \<Rightarrow> run" where
  "bullet_part_run sz i part =
     (let r = (new_run part)\<lparr>font_size := Some sz, font_name := Some SANS_SERIF_FONT,
                font_color := Some (RGBColor 0 0 0)\<rparr>
      in if i mod 2 = 1 then r\<lparr>run_bold := Some True\<rparr> else r)"

fun bullet_loop :: "length \<Rightarrow> nat \<Rightarrow> pystr list \<Rightarrow> paragraph \<Rightarrow> paragraph" where
  "bullet_loop sz i [] p = p"
| "bullet_loop sz i (part # parts) p =
     bullet_loop sz (Suc i) parts
       (if part \<noteq> [] then add_run p (bullet_part_run sz i part) else p)"

definition add_bullet :: "template \<Rightarrow> cell \<Rightarrow> pystr \<Rightarrow> length \<Rightarrow> cell \<times> paragraph" where
  "add_bullet tpl c text sz =
     (let p = add_run new_paragraph (bullet_glyph_run sz);
          p = p\<lparr>space_after := Some (Pt (case tpl of Rajnish \<Rightarrow> 1.5 | React \<Rightarrow> 1)),
                left_indent := Some (Inches 0.15),
                line_spacing := Some (case tpl of Rajnish \<Rightarrow> 1.05 | React \<Rightarrow> 1.0)\<rparr>;
          p = (if contains2 STAR text
               then bullet_loop sz 0 (split2 STAR text) p
               else add_run p ((new_run text)\<lparr>font_size := Some sz,
                      font_name := Some SANS_SERIF_FONT,
                      font_color := Some (RGBColor 0 0 0)\<rparr>))
      in (add_paragraph c p, p))"

section \<open>Files, icons and the builders that use them\<close>

text \<open>
  What the builders read from outside the program: the directory of the running script
  (\<^verbatim>\<open>SCRIPT_DIR\<close>), \<^verbatim>\<open>os.path.exists\<close>, and whether \<^verbatim>\<open>add_picture\<close> on a path succeeds
  (\<open>None\<close>) or raises an exception whose \<^verbatim>\<open>str\<close> is the given message.
\<close>

record fs =
  script_dir :: pystr
  path_exists :: "pystr \<Rightarrow> bool"
  picture_error :: "pystr \<Rightarrow> pystr option"

definition SLASH :: nat where "SLASH = 47"

text \<open>\<^verbatim>\<open>os.path.join(a, b)\<close> on POSIX for a relative \<^verbatim>\<open>b\<close>.\<close>

definition path_join :: "pystr \<Rightarrow> pystr \<Rightarrow> pystr" where
  "path_join a b = (if a = [] then b else if last a = SLASH then a @ b else a @ [SLASH] @ b)"

definition ICON_FILES :: "(pystr \<times> pystr) list" where
  "ICON_FILES =
     [(ascii ''profile'', ascii ''profile.png''),
      (ascii ''skills'', ascii ''skill.png''),
      (ascii ''education'', ascii ''education.png''),
      (ascii ''certificates'', ascii ''certificate.png''),
      (ascii ''findmeonline'', ascii ''findme.png''),
      (ascii ''experience'', ascii ''experience.png''),
      (ascii ''projects'', ascii ''project.png''),
      (ascii ''external_link'', ascii ''link.png''),
      (ascii ''location'', ascii ''location-pin.png''),
      (ascii ''email'', ascii ''email.png''),
      (ascii ''phone'', ascii ''call.png'')]"

text \<open>\<^verbatim>\<open>os.path.join(SCRIPT_DIR, 'icon', icon_file)\<close>.\<close>

definition icon_file_path :: "fs \<Rightarrow> pystr \<Rightarrow> pystr" where
  "icon_file_path env icon_file = path_join (path_join (script_dir env) (ascii ''icon'')) icon_file"

definition get_icon_path :: "fs \<Rightarrow> pystr \<Rightarrow> pystr option" where
  "get_icon_path env icon_key =
     (case map_of ICON_FILES icon_key of
        None \<Rightarrow> None
      | Some icon_file \<Rightarrow>
          (let icon_path = icon_file_path env icon_file
           in if path_exists env icon_path then Some icon_path else None))"

text \<open>
  \<^verbatim>\<open>add_sidebar_text_with_icon(cell, icon_path, text, size, color, icon_size)\<close> of
  create_resume_twocolumn3.py and create_resume_app_developer.py. The empty run is added
  before \<^verbatim>\<open>add_picture\<close> is called, so it stays in the paragraph when the picture fails
  to load and the bare \<^verbatim>\<open>except\<close> swallows the exception.
\<close>

definition add_sidebar_text_with_icon ::
  "fs \<Rightarrow> cell \<Rightarrow> pystr \<Rightarrow> pystr \<Rightarrow> length \<Rightarrow> rgb \<Rightarrow> length \<Rightarrow> cell \<times> paragraph" where
  "add_sidebar_text_with_icon env c icon_path text sz color icon_size =
     (let p = new_paragraph\<lparr>par_alignment := Some LEFT, widow_control := Some False,
                keep_together := Some True\<rparr>;
          p = (if path_exists env icon_path
               then (case picture_error env icon_path of
                       None \<Rightarrow> add_run p ((new_run [])\<lparr>picture := Some (icon_path, icon_size, icon_size)\<rparr>)
                     | Some e \<Rightarrow> add_run p (new_run []))
               else p);
          p = add_run p ((new_run [SPACE])\<lparr>font_size := Some (Pt 3)\<rparr>);
          p = (if AT_SIGN \<in> set text
               then add_run p ((new_run (replace_char SPACE NBSP text))
                      \<lparr>font_size := Some sz, font_name := Some Calibri,
                       font_color := Some color, noBreak := True\<rparr>)
               else add_run p ((new_run text)
                      \<lparr>font_size := Some sz, font_name := Some Calibri,
                       font_color := Some color\<rparr>));
          p = p\<lparr>space_after := Some (Pt 2), line_spacing := Some 1.0,
                left_indent := Some (Pt 0)\<rparr>
      in (add_paragraph c p, p))"

text \<open>
  The plain builders of create_resume_twocolumn3.py and create_resume_app_developer.py.
  \<^verbatim>\<open>str.upper\<close> is a built-in of Python that maps over all of Unicode (and can change
  the length of a string); it is a parameter \<open>upper\<close> of the builders that call it.
\<close>

definition add_sidebar_header :: "(pystr \<Rightarrow> pystr) \<Rightarrow> cell \<Rightarrow> pystr \<Rightarrow> bool \<Rightarrow> cell \<times> paragraph" where
  "add_sidebar_header upper c text is_main =
     (let p = add_run new_paragraph ((new_run (upper text))
                \<lparr>run_bold := Some True,
                 font_size := Some (if is_main then Pt 12 else Pt 10),
                 font_name := Some Calibri, font_color := Some (RGBColor 255 255 255)\<rparr>);
          p = p\<lparr>space_before := Some (Pt 8), space_after := Some (Pt 4)\<rparr>
      in (add_paragraph c p, p))"

definition add_main_header :: "(pystr \<Rightarrow> pystr) \<Rightarrow> cell \<Rightarrow> pystr \<Rightarrow> cell \<times> paragraph" where
  "add_main_header upper c text =
     (let p = add_run new_paragraph ((new_run (upper text))
                \<lparr>run_bold := Some True, font_size := Some (Pt 10.5),
                 font_name := Some Calibri, font_color := Some (RGBColor 0 51 102)\<rparr>);
          p = p\<lparr>space_before := Some (Pt 5), space_after := Some (Pt 1),
                line_spacing := Some 1.0\<rparr>
      in (add_paragraph c p, p))"

definition add_sidebar_text :: "cell \<Rightarrow> pystr \<Rightarrow> length \<Rightarrow> rgb \<Rightarrow> cell \<times> paragraph" where
  "add_sidebar_text c text sz color =
     (let p = add_run new_paragraph ((new_run text)
                \<lparr>font_size := Some sz, font_name := Some Calibri, font_color := Some color\<rparr>);
          p = p\<lparr>space_after := Some (Pt 2), line_spacing := Some 1.1\<rparr>
      in (add_paragraph c p, p))"

definition add_sidebar_bullet :: "cell \<Rightarrow> pystr \<Rightarrow> length \<Rightarrow> cell \<times> paragraph" where
  "add_sidebar_bullet c text sz =
     (let p = add_run new_paragraph ((new_run [BULLET, SPACE])
                \<lparr>font_size := Some sz, font_name := Some Calibri,
                 font_color := Some (RGBColor 255 255 255), run_bold := Some True\<rparr>);
          p = add_run p ((new_run text)
                \<lparr>font_size := Some sz, font_name := Some Calibri,
                 font_color := Some (RGBColor 255 255 255)\<rparr>);
          p = p\<lparr>space_after := Some (Pt 1.5), left_indent := Some (Inches 0.15),
                line_spacing := Some 1.05\<rparr>
      in (add_paragraph c p, p))"

text \<open>
  The builders of create_resume_rajnish_template.py and create_resume_react_template.py.
  The two files hold the same functions with different spacing constants; the template
  argument selects the file.
\<close>

definition accent_border :: bottom_border where
  "accent_border = \<lparr>bdr_val = ascii ''single'', bdr_sz = ascii ''12'',
     bdr_space = ascii ''1'', bdr_color = SECTION_ACCENT_COLOR\<rparr>"

definition add_short_bold_line :: "cell \<Rightarrow> cell \<times> paragraph" where
  "add_short_bold_line c =
     (let p = new_paragraph\<lparr>space_before := Some (Pt 0), left_indent := Some (Pt 0),
                right_indent := Some (Inches 3)\<rparr>;
          p = p\<lparr>inserted_pPr := accent_border # inserted_pPr p\<rparr>
      in (add_paragraph c p, p))"

definition icon_warning :: "pystr \<Rightarrow> pystr \<Rightarrow> pystr" where
  "icon_warning icon_key e =
     ascii ''Warning: Could not add icon '' @ icon_key @ ascii '': '' @ e"

text \<open>
  \<^verbatim>\<open>add_section_header(cell, text, icon_key=None, is_left_column=False)\<close>. The result is
  the cell, the returned paragraph \<^verbatim>\<open>p\<close> and the lines printed. In the icon branch the
  source removes the \<^verbatim>\<open>w:ind\<close> element of the paragraph (which holds the left, right and
  first-line indents) and appends a new one with \<^verbatim>\<open>w:left="-144"\<close> and
  \<^verbatim>\<open>w:firstLine="0"\<close>; both arms of \<^verbatim>\<open>if is_left_column\<close> are the same in the source.
  A path returned by \<^verbatim>\<open>get_icon_path\<close> is never the empty string, so \<^verbatim>\<open>if icon_path\<close>
  is the test for \<open>Some\<close>.
\<close>

definition add_section_header ::
  "template \<Rightarrow> fs \<Rightarrow> (pystr \<Rightarrow> pystr) \<Rightarrow> cell \<Rightarrow> pystr \<Rightarrow> pystr option \<Rightarrow> bool
     \<Rightarrow> cell \<times> paragraph \<times> pystr list" where
  "add_section_header tpl env upper c text icon_key is_left_column =
     (let p = new_paragraph
                \<lparr>space_before := Some (Pt (case tpl of Rajnish \<Rightarrow> 8 | React \<Rightarrow> 5)),
                 space_after := Some (Pt 0), line_spacing := Some 1.0,
                 left_indent := Some (Pt 0), first_line_indent := Some (Pt 0)\<rparr>;
          (p, out) =
            (if icon_key \<noteq> None \<and> icon_key \<noteq> Some []
             then (case get_icon_path env (the icon_key) of
                     None \<Rightarrow> (p, [])
                   | Some icon_path \<Rightarrow>
                       (let p = (if is_left_column
                                 then p\<lparr>left_indent := Some (Twips (- 144)),
                                        right_indent := None,
                                        first_line_indent := Some (Twips 0)\<rparr>
                                 else p\<lparr>left_indent := Some (Twips (- 144)),
                                        right_indent := None,
                                        first_line_indent := Some (Twips 0)\<rparr>)
                        in (case picture_error env icon_path of
                              None \<Rightarrow>
                                (add_run
                                   (add_run p ((new_run [])\<lparr>picture := Some (icon_path, Pt 10, Pt 10)\<rparr>))
                                   ((new_run [THIN_SPACE])\<lparr>font_size := Some (Pt 0.5)\<rparr>),
                                 [])
                            | Some e \<Rightarrow>
                                (add_run p (new_run []), [icon_warning (the icon_key) e]))))
             else (p, []));
          p = add_run p ((new_run (upper text))
                \<lparr>run_bold := Some True, font_size := Some (Pt 11),
                 font_name := Some SANS_SERIF_FONT, font_color := Some (RGBColor 0 0 0)\<rparr>);
          c = add_paragraph c p;
          border_p = new_paragraph
                \<lparr>space_before := Some (Pt 0),
                 space_after := Some (Pt (case tpl of Rajnish \<Rightarrow> 4 | React \<Rightarrow> 2)),
                 line_spacing := Some 1.0, left_indent := Some (Pt 0)\<rparr>;
          border_p =
            (if is_left_column
             then border_p\<lparr>right_indent :=
                    Some (Inches (case tpl of Rajnish \<Rightarrow> 1.5 | React \<Rightarrow> 0.5))\<rparr>
             else border_p\<lparr>right_indent := Some (Inches 0.5)\<rparr>);
          border_p = add_run border_p ((new_run [NBSP])\<lparr>font_size := Some (Pt 1)\<rparr>);
          border_p = border_p\<lparr>inserted_pPr := accent_border # inserted_pPr border_p\<rparr>;
          c = add_paragraph c border_p
      in (c, p, out))"

definition add_body_text :: "template \<Rightarrow> cell \<Rightarrow> pystr \<Rightarrow> length \<Rightarrow> cell \<times> paragraph" where
  "add_body_text tpl c text sz =
     (let p = add_run new_paragraph ((new_run text)
                \<lparr>font_size := Some sz, font_name := Some SANS_SERIF_FONT,
                 font_color := Some (RGBColor 0 0 0)\<rparr>);
          p = p\<lparr>space_after := Some (Pt (case tpl of Rajnish \<Rightarrow> 2 | React \<Rightarrow> 1)),
                line_spacing := Some (case tpl of Rajnish \<Rightarrow> 1.1 | React \<Rightarrow> 1.05)\<rparr>
      in (add_paragraph c p, p))"

text \<open>
  \<^verbatim>\<open>add_contact_header_centered(cell_or_doc, icon_dir, location, email, phone, icon_size)\<close>:
  the loop over the three \<^verbatim>\<open>(icon_key, text)\<close> items, with \<open>n\<close> the number of items
  and \<open>i\<close> the index of \<^verbatim>\<open>enumerate\<close>. The argument \<^verbatim>\<open>icon_dir\<close> is not used by the
  source.
\<close>

fun contact_items_loop ::
  "fs \<Rightarrow> length \<Rightarrow> nat \<Rightarrow> nat \<Rightarrow> (pystr \<times> pystr) list \<Rightarrow> paragraph \<times> pystr list
     \<Rightarrow> paragraph \<times> pystr list" where
  "contact_items_loop env icon_size n i [] st = st"
| "contact_items_loop env icon_size n i ((icon_key, text) # items) (p, out) =
     (let (p, out) =
            (case get_icon_path env icon_key of
               None \<Rightarrow> (p, out)
             | Some icon_path \<Rightarrow>
                 (case picture_error env icon_path of
                    None \<Rightarrow>
                      (add_run
                         (add_run p ((new_run [])\<lparr>picture := Some (icon_path, icon_size, icon_size)\<rparr>))
                         ((new_run [THIN_SPACE])\<lparr>font_size := Some (Pt 2)\<rparr>),
                       out)
                  | Some e \<Rightarrow> (add_run p (new_run []), out @ [icon_warning icon_key e])));
          txt = (new_run text)\<lparr>font_size := Some (Pt 10), font_name := Some SANS_SERIF_FONT,
                  font_color := Some (RGBColor 0 0 0)\<rparr>;
          txt = (if AT_SIGN \<in> set text then txt\<lparr>noBreak := True\<rparr> else txt);
          p = add_run p txt;
          p = (if i < n - 1
               then add_run p ((new_run [SPACE, SPACE])\<lparr>font_size := Some (Pt 4)\<rparr>)
               else p)
      in contact_items_loop env icon_size n (Suc i) items (p, out))"

definition add_contact_header_centered ::
  "template \<Rightarrow> fs \<Rightarrow> cell \<Rightarrow> pystr \<Rightarrow> pystr \<Rightarrow> pystr \<Rightarrow> pystr \<Rightarrow> length
     \<Rightarrow> cell \<times> paragraph \<times> pystr list" where
  "add_contact_header_centered tpl env c icon_dir location email phone icon_size =
     (let p = new_paragraph\<lparr>par_alignment := Some CENTER,
                space_after := Some (Pt (case tpl of Rajnish \<Rightarrow> 6 | React \<Rightarrow> 3))\<rparr>;
          items = [(ascii ''location'', location), (ascii ''email'', email),
                   (ascii ''phone'', phone)];
          (p, out) = contact_items_loop env icon_size (length items) 0 items (p, [])
      in (add_paragraph c p, p, out))"

section \<open>Page margins\<close>

text \<open>
  \<^verbatim>\<open>set_margins(section, top, bottom, left, right)\<close>, the same in all four scripts: four
  assignments and no check of its own. What can fail is python-docx: assigning a margin
  writes an attribute of \<^verbatim>\<open>w:pgMar\<close>, and python-docx validates the value against the
  attribute's type and raises \<^verbatim>\<open>ValueError\<close> outside its range. \<^verbatim>\<open>w:top\<close> and
  \<^verbatim>\<open>w:bottom\<close> are signed measures (a 32-bit range), \<^verbatim>\<open>w:left\<close> and \<^verbatim>\<open>w:right\<close>
  unsigned ones. The assignments run in the source's order, so the first invalid value
  decides the error.
\<close>

datatype error = ValueError

record "section" =
  top_margin :: "length option"
  bottom_margin :: "length option"
  left_margin :: "length option"
  right_margin :: "length option"

definition signed_measure_ok :: "length \<Rightarrow> bool" where
  "signed_measure_ok l = (- 2147483648 \<le> emu l \<and> emu l \<le> 2147483647)"

definition unsigned_measure_ok :: "length \<Rightarrow> bool" where
  "unsigned_measure_ok l = (0 \<le> emu l \<and> emu l \<le> 18446744073709551615)"

definition set_margins :: "section \<Rightarrow> rat \<Rightarrow> rat \<Rightarrow> rat \<Rightarrow> rat \<Rightarrow> error + section" where
  "set_margins sec top_in bottom_in left_in right_in =
     (if \<not> signed_measure_ok (Inches top_in) then Inl ValueError
      else let sec = sec\<lparr>top_margin := Some (Inches top_in)\<rparr> in
      if \<not> signed_measure_ok (Inches bottom_in) then Inl ValueError
      else let sec = sec\<lparr>bottom_margin := Some (Inches bottom_in)\<rparr> in
      if \<not> unsigned_measure_ok (Inches left_in) then Inl ValueError
      else let sec = sec\<lparr>left_margin := Some (Inches left_in)\<rparr> in
      if \<not> unsigned_measure_ok (Inches right_in) then Inl ValueError
      else Inr (sec\<lparr>right_margin := Some (Inches right_in)\<rparr>))"

section \<open>The two-column page grid\<close>







text \<open>
  \<^verbatim>\<open>doc.add_table(rows, cols)\<close>: python-docx creates the table with its properties
  element, one grid column per column, and in every cell a properties element holding
  the cell width and one empty paragraph. \<open>w0\<close> is the width python-docx gives each
  column at creation (an even share of the page's text width).
\<close>

definition new_cell :: cell where
  "new_cell = \<lparr>paragraphs = [new_paragraph], tcPr = Some [TcW], vertical_alignment = None\<rparr>"









section \<open>The converter\<close>

text \<open>
  \<^verbatim>\<open>convert_docx_to_pdf()\<close> of convert_to_pdf.py talks to the world outside the program:
  it tests whether files exist, imports and calls \<^verbatim>\<open>docx2pdf.convert\<close>, and spawns
  processes with \<^verbatim>\<open>subprocess.run\<close>. The world is a state of some type \<open>'w\<close> with the
  three operations the function uses; the calls that can change the files return the new
  world. Each outcome the source distinguishes is a constructor:
  \<^item> the native converter: the import fails, \<^verbatim>\<open>convert\<close> raises, or \<^verbatim>\<open>convert\<close> returns;
  \<^item> a spawned process: it ends with a return code, the binary is missing
    (\<^verbatim>\<open>FileNotFoundError\<close>), the timeout expires (\<^verbatim>\<open>subprocess.TimeoutExpired\<close>), or
    \<^verbatim>\<open>subprocess.run\<close> raises any other \<^verbatim>\<open>Exception\<close>.
\<close>

datatype native_result = ImportFailed pystr | ConvertRaised pystr | ConvertReturned

datatype proc_result = Exited int | FileNotFoundError | TimeoutExpired | OtherException pystr

record 'w os =
  os_path_exists :: "'w \<Rightarrow> pystr \<Rightarrow> bool"
  docx2pdf :: "'w \<Rightarrow> pystr \<Rightarrow> pystr \<Rightarrow> native_result \<times> 'w"
  subprocess_run :: "'w \<Rightarrow> pystr list \<Rightarrow> nat \<Rightarrow> proc_result \<times> 'w"

text \<open>
  What the function does is recorded as a log, oldest event first: a line printed, the
  call of the native converter with its outcome, a process spawned with its argument
  list, its timeout in seconds and its outcome.
\<close>

datatype event =
    Print pystr
  | Native native_result
  | Spawn "pystr list" nat proc_result

record 'w cstate =
  world :: 'w
  log :: "event list"

definition docx_file :: pystr where
  "docx_file = ascii ''Prabhat_Kumar_Resume_TwoColumn.docx''"

definition pdf_file :: pystr where
  "pdf_file = ascii ''Prabhat_Kumar_Resume_TwoColumn.pdf''"

definition libreoffice_paths :: "pystr list" where
  "libreoffice_paths =
     [ascii ''/Applications/LibreOffice.app/Contents/MacOS/soffice'',
      ascii ''libreoffice'', ascii ''soffice'']"

definition emit :: "pystr \<Rightarrow> 'w cstate \<Rightarrow> 'w cstate" where
  "emit line s = s\<lparr>log := log s @ [Print line]\<rparr>"

definition success_line :: pystr where
  "success_line = [CHECK_MARK] @ ascii '' Successfully created: '' @ pdf_file"

definition rule60 :: pystr where
  "rule60 = replicate 60 61"

definition remediation :: "pystr list" where
  "remediation =
     [[10] @ rule60,
      ascii ''PDF conversion failed. Please try one of these options:'',
      rule60,
      [10] @ ascii ''Option 1: Use Microsoft Word'',
      ascii ''  - Open the DOCX file in Microsoft Word'',
      ascii ''  - Go to File > Export > PDF'',
      ascii ''  - Save as PDF'',
      [10] @ ascii ''Option 2: Use online converter'',
      ascii ''  - Visit: https://www.ilovepdf.com/word-to-pdf'',
      ascii ''  - Upload the DOCX file and convert'',
      [10] @ ascii ''Option 3: Install LibreOffice'',
      ascii ''  - Download from: https://www.libreoffice.org/'',
      ascii ''  - Then run this script again'',
      rule60]"

text \<open>
  Method 1, the \<^verbatim>\<open>try\<close> block around docx2pdf. The result is \<open>True\<close> when the function
  returns \<^verbatim>\<open>True\<close> from inside the block.
\<close>

definition try_docx2pdf :: "'w os \<Rightarrow> 'w cstate \<Rightarrow> bool \<times> 'w cstate" where
  "try_docx2pdf sys s =
     (case docx2pdf sys (world s) docx_file pdf_file of
        (ImportFailed e, w) \<Rightarrow>
          (let s = s\<lparr>world := w, log := log s @ [Native (ImportFailed e)]\<rparr>
           in (False, emit (ascii ''docx2pdf failed: '' @ e) s))
      | (ConvertRaised e, w) \<Rightarrow>
          (let s = emit (ascii ''Converting DOCX to PDF using docx2pdf...'') s;
               s = s\<lparr>world := w, log := log s @ [Native (ConvertRaised e)]\<rparr>
           in (False, emit (ascii ''docx2pdf failed: '' @ e) s))
      | (ConvertReturned, w) \<Rightarrow>
          (let s = emit (ascii ''Converting DOCX to PDF using docx2pdf...'') s;
               s = s\<lparr>world := w, log := log s @ [Native ConvertReturned]\<rparr>
           in if os_path_exists sys w pdf_file then (True, emit success_line s)
              else (False, s)))"

text \<open>
  Method 2, the loop over \<^verbatim>\<open>libreoffice_paths\<close>. It ends by returning \<^verbatim>\<open>True\<close> from the
  function, by running out of candidates, or by an exception that the inner
  \<^verbatim>\<open>except (FileNotFoundError, subprocess.TimeoutExpired)\<close> does not catch.
\<close>

datatype loop_exit = ReturnedTrue | Exhausted | Raised pystr

definition soffice_args :: "pystr \<Rightarrow> pystr list" where
  "soffice_args lo_path =
     [lo_path, ascii ''--headless'', ascii ''--convert-to'', ascii ''pdf'',
      ascii ''--outdir'', ascii ''.'', docx_file]"

fun try_paths :: "'w os \<Rightarrow> pystr list \<Rightarrow> 'w cstate \<Rightarrow> loop_exit \<times> 'w cstate" where
  "try_paths sys [] s = (Exhausted, s)"
| "try_paths sys (lo_path # rest) s =
     (case subprocess_run sys (world s) (soffice_args lo_path) 30 of
        (result, w) \<Rightarrow>
          (let s = s\<lparr>world := w, log := log s @ [Spawn (soffice_args lo_path) 30 result]\<rparr>
           in case result of
                Exited returncode \<Rightarrow>
                  if returncode = 0 \<and> os_path_exists sys w pdf_file
                  then (ReturnedTrue, emit success_line s)
                  else try_paths sys rest s
              | FileNotFoundError \<Rightarrow> try_paths sys rest s
              | TimeoutExpired \<Rightarrow> try_paths sys rest s
              | OtherException e \<Rightarrow> (Raised e, s)))"

fun emit_all :: "pystr list \<Rightarrow> 'w cstate \<Rightarrow> 'w cstate" where
  "emit_all [] s = s"
| "emit_all (line # lines) s = emit_all lines (emit line s)"

definition convert_docx_to_pdf :: "'w os \<Rightarrow> 'w \<Rightarrow> bool \<times> 'w cstate" where
  "convert_docx_to_pdf sys w0 =
     (let s = \<lparr>world = w0, log = []\<rparr>
      in if \<not> os_path_exists sys w0 docx_file
         then (False, emit (ascii ''Error: '' @ docx_file @ ascii '' not found!'') s)
         else (case try_docx2pdf sys s of
                 (True, s) \<Rightarrow> (True, s)
               | (False, s) \<Rightarrow>
                   (case try_paths sys libreoffice_paths s of
                      (ReturnedTrue, s) \<Rightarrow> (True, s)
                    | (Exhausted, s) \<Rightarrow> (False, emit_all remediation s)
                    | (Raised e, s) \<Rightarrow>
                        (False, emit_all remediation
                                  (emit (ascii ''LibreOffice conversion failed: '' @ e) s)))))"

text \<open>Readings of the log: the lines printed, the processes spawned, the native calls.\<close>

fun printed :: "event list \<Rightarrow> pystr list" where
  "printed [] = []"
| "printed (Print line # es) = line # printed es"
| "printed (e # es) = printed es"

fun spawned :: "event list \<Rightarrow> (pystr list \<times> nat \<times> proc_result) list" where
  "spawned [] = []"
| "spawned (Spawn args t r # es) = (args, t, r) # spawned es"
| "spawned (e # es) = spawned es"

fun native_calls :: "event list \<Rightarrow> native_result list" where
  "native_calls [] = []"
| "native_calls (Native r # es) = r # native_calls es"
| "native_calls (e # es) = native_calls es"

section \<open>Readings of a built paragraph\<close>

text \<open>
  A run is emphasised when its bold property is set; a segment is the text of a run with
  its emphasis. \<open>styled_segments\<close> is the bold-delimiter convention as the specification
  words it: split the text on the delimiter, even-indexed segments plain, odd-indexed
  emphasised. \<open>alternating\<close> holds of a sequence of emphasis flags that goes
  plain, bold, plain, ...
\<close>

definition is_bold :: "run \<Rightarrow> bool" where
  "is_bold r = (run_bold r = Some True)"

definition seg_of :: "run \<Rightarrow> pystr \<times> bool" where
  "seg_of r = (run_text r, is_bold r)"

definition styled_segments :: "pystr \<Rightarrow> (pystr \<times> bool) list" where
  "styled_segments t = map (\<lambda>(i, s). (s, odd i)) (enumerate 0 (split2 STAR t))"

fun alternating_from :: "bool \<Rightarrow> bool list \<Rightarrow> bool" where
  "alternating_from b [] = True"
| "alternating_from b (x # xs) = (x = b \<and> alternating_from (\<not> b) xs)"

definition alternating :: "bool list \<Rightarrow> bool" where
  "alternating bs = alternating_from False bs"

text \<open>The number of \<^verbatim>\<open>**\<close> delimiters that \<^verbatim>\<open>split\<close> finds in a text.\<close>

definition delimiters :: "pystr \<Rightarrow> nat" where
  "delimiters t = length (split2 STAR t) - 1"

text \<open>The runs of a paragraph that hold a picture.\<close>

definition image_runs :: "paragraph \<Rightarrow> run list" where
  "image_runs p = filter (\<lambda>r. picture r \<noteq> None) (runs p)"

text \<open>
  The contact text runs of \<^verbatim>\<open>add_contact_header_centered\<close>: they are the runs of size
  \<^verbatim>\<open>Pt(10)\<close> (icon runs carry no size, the thin space has \<^verbatim>\<open>Pt(2)\<close>, the separator
  \<^verbatim>\<open>Pt(4)\<close>).
\<close>

definition contact_text_runs :: "paragraph \<Rightarrow> run list" where
  "contact_text_runs p = filter (\<lambda>r. font_size r = Some (Pt 10)) (runs p)"

text \<open>
  Concrete surroundings used to evaluate the builders: a file system without any file,
  \<^verbatim>\<open>str.upper\<close> on ASCII text (lower-case letters move down by 32, everything else
  stays), and a section with margins of one inch.
\<close>

definition no_files :: fs where
  "no_files = \<lparr>script_dir = ascii ''/home/user/resume'', path_exists = (\<lambda>p. False),
     picture_error = (\<lambda>p. None)\<rparr>"

definition ascii_upper :: "pystr \<Rightarrow> pystr" where
  "ascii_upper s = map (\<lambda>c. if 97 \<le> c \<and> c \<le> 122 then c - 32 else c) s"

definition sample_section :: "section" where
  "sample_section = \<lparr>top_margin = Some (Inches 1), bottom_margin = Some (Inches 1),
     left_margin = Some (Inches 1), right_margin = Some (Inches 1)\<rparr>"


text \<open>
  Which segments of \<open>styled_segments\<close> each bullet builder turns into a run:
  \<^verbatim>\<open>add_compact_bullet\<close> skips an empty segment at an even index only, \<^verbatim>\<open>add_bullet\<close>
  skips every empty segment.
\<close>

definition compact_emits :: "pystr \<times> bool \<Rightarrow> bool" where
  "compact_emits seg = (fst seg \<noteq> [] \<or> snd seg)"

definition bullet_emits :: "pystr \<times> bool \<Rightarrow> bool" where
  "bullet_emits seg = (fst seg \<noteq> [])"

text \<open>The first code point of a printed line (0 for the empty line).\<close>

definition line_head :: "pystr \<Rightarrow> nat" where
  "line_head l = (case l of [] \<Rightarrow> 0 | c # _ \<Rightarrow> c)"

text \<open>
  Three concrete worlds for the converter. In the first the world counts the processes
  spawned: docx2pdf is not installed, the first binary is missing, the second one exits
  with 0 and leaves the PDF behind. In the second only the input file exists and no
  conversion mechanism is available. In the third no file exists at all.
\<close>

definition one_missing_then_ok :: "nat os" where
  "one_missing_then_ok =
     \<lparr>os_path_exists = (\<lambda>w p. p = docx_file \<or> (p = pdf_file \<and> 2 \<le> w)),
      docx2pdf = (\<lambda>w d p. (ImportFailed (ascii ''No module named docx2pdf''), w)),
      subprocess_run = (\<lambda>w args t. (if w = 0 then FileNotFoundError else Exited 0, Suc w))\<rparr>"


definition no_input :: "unit os" where
  "no_input =
     \<lparr>os_path_exists = (\<lambda>w p. False),
      docx2pdf = (\<lambda>w d p. (ConvertReturned, w)),
      subprocess_run = (\<lambda>w args t. (Exited 0, w))\<rparr>"

section \<open>Auxiliary facts\<close>

subsection \<open>Splitting and the bullet builders\<close>

lemma split2_nonempty: "split2 d xs \<noteq> []"
  by (induction d xs rule: split2.induct) (auto split: list.splits)

lemma contains2_iff: "contains2 d xs \<longleftrightarrow> 1 < length (split2 d xs)"
  by (induction d xs rule: split2.induct) (auto split: list.splits simp: split2_nonempty)

lemma compact_loop_runs:
  "map seg_of (runs (compact_bullet_loop i parts p)) =
     map seg_of (runs p) @ filter compact_emits (map (\<lambda>(i, s). (s, odd i)) (enumerate i parts))"
  by (induction parts arbitrary: i p)
     (auto simp: add_run_def seg_of_def is_bold_def compact_plain_run_def compact_bold_run_def
        new_run_def compact_emits_def)

lemma bullet_loop_runs:
  "map seg_of (runs (bullet_loop sz i parts p)) =
     map seg_of (runs p) @ filter bullet_emits (map (\<lambda>(i, s). (s, odd i)) (enumerate i parts))"
  by (induction parts arbitrary: i p)
     (auto simp: add_run_def seg_of_def is_bold_def bullet_part_run_def new_run_def Let_def
        bullet_emits_def)

lemma compact_bullet_segments:
  "map seg_of (runs (snd (add_compact_bullet c t))) =
     ([BULLET, SPACE], True) #
     (if contains2 STAR t then filter compact_emits (styled_segments t)
      else [(t, False)])"
  by (simp add: add_compact_bullet_def Let_def compact_loop_runs styled_segments_def)
     (simp add: add_run_def seg_of_def is_bold_def compact_bullet_run_def compact_plain_run_def
        new_run_def new_paragraph_def)

lemma bullet_segments:
  "map seg_of (runs (snd (add_bullet tpl c t sz))) =
     ([BULLET, SPACE], True) #
     (if contains2 STAR t then filter bullet_emits (styled_segments t)
      else [(t, False)])"
  by (simp add: add_bullet_def Let_def bullet_loop_runs styled_segments_def)
     (simp add: add_run_def seg_of_def is_bold_def bullet_glyph_run_def
        new_run_def new_paragraph_def)

lemma alternating_from_enumerate:
  "alternating_from (odd i) (map snd (map (\<lambda>(i, s). (s, odd i)) (enumerate i parts)))"
proof (induction parts arbitrary: i)
  case Nil
  show ?case by simp
next
  case (Cons part parts)
  from Cons [of "Suc i"] show ?case by simp
qed

lemma alternating_styled: "alternating (map snd (styled_segments t))"
  using alternating_from_enumerate [of 0 "split2 STAR t"]
  by (simp add: alternating_def styled_segments_def)

lemma styled_segments_fst: "map fst (styled_segments t) = split2 STAR t"
proof -
  have "map fst (map (\<lambda>(i, s). (s, odd i)) (enumerate i parts)) = parts" for i and parts :: "pystr list"
    by (induction parts arbitrary: i) auto
  then show ?thesis by (simp add: styled_segments_def)
qed

lemma split2_no_delimiter: "\<not> contains2 d xs \<Longrightarrow> split2 d xs = [xs]"
  by (induction d xs rule: split2.induct) auto

lemma styled_unsplit: "\<not> contains2 STAR t \<Longrightarrow> styled_segments t = [(t, False)]"
  by (simp add: styled_segments_def split2_no_delimiter)

lemma filter_all_nonempty:
  assumes "\<forall>s \<in> set (split2 STAR t). s \<noteq> []"
  shows "filter bullet_emits (styled_segments t) = styled_segments t"
    and "filter compact_emits (styled_segments t) = styled_segments t"
proof -
  have "\<forall>x \<in> set (styled_segments t). fst x \<noteq> []"
    using assms styled_segments_fst [of t] by (metis (no_types, lifting) image_iff list.set_map)
  then show "filter bullet_emits (styled_segments t) = styled_segments t"
    and "filter compact_emits (styled_segments t) = styled_segments t"
    by (auto simp: filter_id_conv compact_emits_def bullet_emits_def)
qed

lemma last_styled:
  "last (styled_segments t) = (last (split2 STAR t), odd (delimiters t))"
proof -
  let ?parts = "split2 STAR t"
  have ne: "?parts \<noteq> []" by (rule split2_nonempty)
  then have len: "length ?parts - 1 < length ?parts" by simp
  have ne2: "enumerate 0 ?parts \<noteq> []"
    using ne by (cases ?parts) simp_all
  then have "last (enumerate 0 ?parts) = enumerate 0 ?parts ! (length ?parts - 1)"
    by (simp add: last_conv_nth)
  also have "\<dots> = (length ?parts - 1, ?parts ! (length ?parts - 1))"
    using len by (simp add: nth_enumerate_eq)
  finally have "last (enumerate 0 ?parts) = (length ?parts - 1, last ?parts)"
    using ne by (simp add: last_conv_nth)
  then show ?thesis
    using ne ne2 by (simp add: styled_segments_def delimiters_def last_map)
qed

lemma last_filter_keep: "xs \<noteq> [] \<Longrightarrow> P (last xs) \<Longrightarrow> last (filter P xs) = last xs"
  by (induction xs) (auto split: if_splits simp: filter_empty_conv)

subsection \<open>The converter's log\<close>

lemma printed_append: "printed (xs @ ys) = printed xs @ printed ys"
  by (induction xs rule: printed.induct) simp_all

lemma spawned_append: "spawned (xs @ ys) = spawned xs @ spawned ys"
  by (induction xs rule: spawned.induct) simp_all


lemma log_emit: "log (emit l s) = log s @ [Print l]"
  by (simp add: emit_def)

lemma world_emit: "world (emit l s) = world s"
  by (simp add: emit_def)

lemma log_emit_all: "log (emit_all ls s) = log s @ map Print ls"
  by (induction ls arbitrary: s) (simp_all add: log_emit)

lemma world_emit_all: "world (emit_all ls s) = world s"
  by (induction ls arbitrary: s) (simp_all add: world_emit)


lemma spawned_map_Print: "spawned (map Print ls) = []"
  by (induction ls) simp_all

lemma native_calls_map_Print: "native_calls (map Print ls) = []"
  by (induction ls) simp_all


lemma try_paths_step:
  assumes "try_paths sys (p # ps) s = (ex, s')"
    and "subprocess_run sys (world s) (soffice_args p) 30 = (result, w)"
    and "s1 = s\<lparr>world := w, log := log s @ [Spawn (soffice_args p) 30 result]\<rparr>"
  shows "(result = Exited 0 \<and> os_path_exists sys w pdf_file \<and> ex = ReturnedTrue \<and>
            s' = emit success_line s1) \<or>
         (\<exists>e. result = OtherException e \<and> ex = Raised e \<and> s' = s1) \<or>
         ((result = FileNotFoundError \<or> result = TimeoutExpired \<or>
             (\<exists>rc. result = Exited rc \<and> \<not> (rc = 0 \<and> os_path_exists sys w pdf_file))) \<and>
            try_paths sys ps s1 = (ex, s'))"
  using assms by (auto simp: Let_def split: proc_result.splits if_splits)

lemma try_paths_grows:
  "try_paths sys ps s = (ex, s') \<Longrightarrow>
     length (spawned (log s)) + (if ps = [] then 0 else 1) \<le> length (spawned (log s'))"
proof (induction ps arbitrary: s)
  case Nil
  then show ?case by simp
next
  case (Cons p ps)
  obtain result w where run: "subprocess_run sys (world s) (soffice_args p) 30 = (result, w)"
    by (cases "subprocess_run sys (world s) (soffice_args p) 30")
  define s1 where "s1 = s\<lparr>world := w, log := log s @ [Spawn (soffice_args p) 30 result]\<rparr>"
  have sp1: "length (spawned (log s1)) = length (spawned (log s)) + 1"
    by (simp add: s1_def spawned_append)
  from try_paths_step [OF Cons.prems run s1_def]
  consider (stop) "s' = emit success_line s1 \<or> s' = s1"
    | (advance) "try_paths sys ps s1 = (ex, s')"
    by blast
  then show ?case
  proof cases
    case stop
    then show ?thesis using sp1 by (auto simp: log_emit spawned_append)
  next
    case advance
    from Cons.IH [OF advance] show ?thesis using sp1 by (simp split: if_splits)
  qed
qed

lemma try_paths_log:
  "try_paths sys ps s = (ex, s') \<Longrightarrow>
     \<exists>sp. spawned (log s') = spawned (log s) @ sp \<and> length sp \<le> length ps \<and>
          map fst sp = map soffice_args (take (length sp) ps) \<and>
          (\<forall>x \<in> set sp. fst (snd x) = 30) \<and>
          (\<forall>i. Suc i < length ps \<and> i < length sp \<and>
                (snd (snd (sp ! i)) = FileNotFoundError \<or> snd (snd (sp ! i)) = TimeoutExpired)
                \<longrightarrow> Suc i < length sp) \<and>
          (ex = ReturnedTrue \<longrightarrow>
             sp \<noteq> [] \<and> snd (snd (last sp)) = Exited 0 \<and> os_path_exists sys (world s') pdf_file) \<and>
          (ex = Exhausted \<longrightarrow> length sp = length ps)"
proof (induction ps arbitrary: s)
  case Nil
  then show ?case by simp
next
  case (Cons p ps)
  obtain result w where run: "subprocess_run sys (world s) (soffice_args p) 30 = (result, w)"
    by (cases "subprocess_run sys (world s) (soffice_args p) 30")
  define s1 where "s1 = s\<lparr>world := w, log := log s @ [Spawn (soffice_args p) 30 result]\<rparr>"
  have sp1: "spawned (log s1) = spawned (log s) @ [(soffice_args p, 30, result)]"
    by (simp add: s1_def spawned_append)
  from try_paths_step [OF Cons.prems run s1_def]
  consider (success) "result = Exited 0" "os_path_exists sys w pdf_file" "ex = ReturnedTrue"
        "s' = emit success_line s1"
    | (raised) e where "result = OtherException e" "ex = Raised e" "s' = s1"
    | (advance) "try_paths sys ps s1 = (ex, s')"
    by blast
  then show ?case
  proof cases
    case success
    show ?thesis
      by (rule exI [of _ "[(soffice_args p, 30, result)]"])
         (use success(2) in \<open>auto simp: success(1,3,4) sp1 log_emit spawned_append world_emit s1_def\<close>)
  next
    case raised
    show ?thesis
      by (rule exI [of _ "[(soffice_args p, 30, result)]"]) (auto simp: raised sp1)
  next
    case advance
    from Cons.IH [OF advance] obtain sp where
      sp: "spawned (log s') = spawned (log s1) @ sp" "length sp \<le> length ps"
          "map fst sp = map soffice_args (take (length sp) ps)"
          "\<forall>x \<in> set sp. fst (snd x) = 30"
          "\<forall>i. Suc i < length ps \<and> i < length sp \<and>
                (snd (snd (sp ! i)) = FileNotFoundError \<or> snd (snd (sp ! i)) = TimeoutExpired)
                \<longrightarrow> Suc i < length sp"
          "ex = ReturnedTrue \<longrightarrow>
             sp \<noteq> [] \<and> snd (snd (last sp)) = Exited 0 \<and> os_path_exists sys (world s') pdf_file"
          "ex = Exhausted \<longrightarrow> length sp = length ps"
      by blast
    let ?sp = "(soffice_args p, 30, result) # sp"
    have a: "spawned (log s') = spawned (log s) @ ?sp" using sp(1) sp1 by simp
    have b: "length ?sp \<le> length (p # ps)" using sp(2) by simp
    have c: "map fst ?sp = map soffice_args (take (length ?sp) (p # ps))" using sp(3) by simp
    have d: "\<forall>x \<in> set ?sp. fst (snd x) = 30" using sp(4) by simp
    have e: "\<forall>i. Suc i < length (p # ps) \<and> i < length ?sp \<and>
                (snd (snd (?sp ! i)) = FileNotFoundError \<or> snd (snd (?sp ! i)) = TimeoutExpired)
                \<longrightarrow> Suc i < length ?sp"
    proof (intro allI impI)
      fix i
      assume h: "Suc i < length (p # ps) \<and> i < length ?sp \<and>
                (snd (snd (?sp ! i)) = FileNotFoundError \<or> snd (snd (?sp ! i)) = TimeoutExpired)"
      show "Suc i < length ?sp"
      proof (cases i)
        case 0
        have "ps \<noteq> []" using h 0 by auto
        then obtain q qs where "ps = q # qs" by (cases ps) auto
        with try_paths_grows [OF advance] have "sp \<noteq> []" using sp(1) by auto
        then show ?thesis using 0 by simp
      next
        case (Suc j)
        with h sp(5) show ?thesis by auto
      qed
    qed
    have f: "ex = ReturnedTrue \<longrightarrow>
             ?sp \<noteq> [] \<and> snd (snd (last ?sp)) = Exited 0 \<and> os_path_exists sys (world s') pdf_file"
      using sp(6) by simp
    have g: "ex = Exhausted \<longrightarrow> length ?sp = length (p # ps)" using sp(7) by simp
    show ?thesis
      by (rule exI [of _ ?sp]) (use a b c d e f g in blast)
  qed
qed


lemma line_head_rule60: "line_head rule60 = 61"
  by (simp add: rule60_def line_head_def eval_nat_numeral)

lemma remediation_heads: "l \<in> set remediation \<Longrightarrow> line_head l \<in> {10, 80, 61, 32}"
  using line_head_rule60 by (auto simp: remediation_def ascii_def line_head_def)

lemma try_docx2pdf_log:
  assumes "try_docx2pdf sys s = (b, s1)"
  shows "spawned (log s1) = spawned (log s)"
    and "\<exists>pre. printed (log s1) = printed (log s) @ pre \<and> (\<forall>l \<in> set pre. line_head l \<in> {67, 100, 10003})"
    and "b \<Longrightarrow> os_path_exists sys (world s1) pdf_file"
  using assms
  by (auto simp: try_docx2pdf_def Let_def log_emit world_emit spawned_append printed_append
        line_head_def ascii_def success_line_def CHECK_MARK_def
      split: prod.splits native_result.splits if_splits)

lemma convert_cases:
  assumes "convert_docx_to_pdf sys w0 = (res, s)" and "os_path_exists sys w0 docx_file"
  obtains (native) "try_docx2pdf sys \<lparr>world = w0, log = []\<rparr> = (True, s)" "res"
  | (external) s1 ex s2 where "try_docx2pdf sys \<lparr>world = w0, log = []\<rparr> = (False, s1)"
      "try_paths sys libreoffice_paths s1 = (ex, s2)"
      "(ex = ReturnedTrue \<and> res \<and> s = s2) \<or>
       (ex = Exhausted \<and> \<not> res \<and> s = emit_all remediation s2) \<or>
       (\<exists>e. ex = Raised e \<and> \<not> res \<and>
          s = emit_all remediation (emit (ascii ''LibreOffice conversion failed: '' @ e) s2))"
  using assms
  by (auto simp: convert_docx_to_pdf_def Let_def split: prod.splits bool.splits loop_exit.splits)

subsection \<open>Icon rows\<close>

lemma contact_loop_text_runs:
  "contact_text_runs (fst (contact_items_loop env icon_size n i items (p, out))) =
     contact_text_runs p @
     map (\<lambda>t. (new_run t)\<lparr>font_size := Some (Pt 10), font_name := Some SANS_SERIF_FONT,
                  font_color := Some (RGBColor 0 0 0), noBreak := (AT_SIGN \<in> set t)\<rparr>)
       (map snd items)"
proof (induction items arbitrary: i p out)
  case Nil
  show ?case by simp
next
  case (Cons item items)
  obtain icon_key tx where item: "item = (icon_key, tx)" by (cases item)
  show ?case
    unfolding item
    by (simp add: Let_def Cons.IH split: option.splits prod.splits)
       (auto simp: contact_text_runs_def add_run_def new_run_def)
qed

lemma contact_header_text_runs:
  "contact_text_runs (fst (snd (add_contact_header_centered tpl env c icon_dir location email phone icon_size))) =
     map (\<lambda>t. (new_run t)\<lparr>font_size := Some (Pt 10), font_name := Some SANS_SERIF_FONT,
                  font_color := Some (RGBColor 0 0 0), noBreak := (AT_SIGN \<in> set t)\<rparr>)
       [location, email, phone]"
proof -
  let ?p0 = "new_paragraph\<lparr>par_alignment := Some CENTER,
                space_after := Some (Pt (case tpl of Rajnish \<Rightarrow> 6 | React \<Rightarrow> 3))\<rparr>"
  let ?items = "[(ascii ''location'', location), (ascii ''email'', email), (ascii ''phone'', phone)]"
  have "fst (snd (add_contact_header_centered tpl env c icon_dir location email phone icon_size)) =
          fst (contact_items_loop env icon_size (length ?items) 0 ?items (?p0, []))"
    by (simp add: add_contact_header_centered_def Let_def split: prod.splits)
  moreover have "contact_text_runs ?p0 = []"
    by (simp add: contact_text_runs_def new_paragraph_def)
  ultimately show ?thesis
    using contact_loop_text_runs [of env icon_size "length ?items" 0 ?items ?p0 "[]"]
    by simp
qed

lemma space_not_in_replaced: "SPACE \<notin> set (replace_char SPACE NBSP text)"
  by (auto simp: replace_char_def SPACE_def NBSP_def)

lemma contact_loop_no_icons:
  "\<forall>k \<in> set (map fst items). get_icon_path env k = None \<Longrightarrow>
   image_runs (fst (contact_items_loop env icon_size n i items (p, out))) = image_runs p \<and>
   snd (contact_items_loop env icon_size n i items (p, out)) = out"
proof (induction items arbitrary: i p out)
  case Nil
  show ?case by simp
next
  case (Cons item items)
  obtain icon_key tx where item: "item = (icon_key, tx)" by (cases item)
  from Cons.prems have none: "get_icon_path env icon_key = None"
    and rest: "\<forall>k \<in> set (map fst items). get_icon_path env k = None"
    by (simp_all add: item)
  have step: "image_runs (add_run q r) = image_runs q" if "picture r = None" for q r
    using that by (simp add: image_runs_def add_run_def)
  show ?case
    unfolding item
    by (simp add: Let_def none Cons.IH [OF rest] step new_run_def)
qed

lemma get_icon_path_missing:
  "map_of ICON_FILES icon_key = Some icon_file \<Longrightarrow>
   \<not> path_exists env (icon_file_path env icon_file) \<Longrightarrow> get_icon_path env icon_key = None"
  by (simp add: get_icon_path_def Let_def)

subsection \<open>Appending to a cell\<close>

lemma contact_header_result:
  "fst (add_contact_header_centered tpl env c icon_dir location email phone icon_size) =
     add_paragraph c (fst (snd (add_contact_header_centered tpl env c icon_dir location email phone icon_size)))"
  by (simp add: add_contact_header_centered_def Let_def split: prod.splits)

lemma section_header_result:
  "\<exists>border_p. fst (add_section_header tpl env upper c text icon_key is_left_column) =
     add_paragraph (add_paragraph c
       (fst (snd (add_section_header tpl env upper c text icon_key is_left_column)))) border_p"
  by (auto simp: add_section_header_def Let_def split: prod.splits)

subsection \<open>Failing conversions\<close>




subsection \<open>Margins in range\<close>

lemma trunc_between:
  assumes "of_int lo \<le> x" and "x \<le> of_int hi" and "lo \<le> 0" and "0 \<le> hi"
  shows "lo \<le> trunc x \<and> trunc x \<le> hi"
proof (cases "0 \<le> x")
  case True
  then have t: "trunc x = \<lfloor>x\<rfloor>" by (simp add: trunc_def)
  have "0 \<le> \<lfloor>x\<rfloor>" using True by simp
  moreover have "\<lfloor>x\<rfloor> \<le> hi" using assms(2) by (simp add: floor_le_iff)
  ultimately show ?thesis unfolding t using assms(3) by linarith
next
  case False
  then have t: "trunc x = \<lceil>x\<rceil>" by (simp add: trunc_def)
  have "\<lceil>x\<rceil> \<le> 0" using False by (simp add: ceiling_le_iff)
  moreover have "lo \<le> \<lceil>x\<rceil>" using assms(1) by (simp add: le_ceiling_iff)
  ultimately show ?thesis unfolding t using assms(4) by linarith
qed

lemma trunc_negative: "x \<le> - 1 \<Longrightarrow> trunc x < 0"
  by (simp add: trunc_def ceiling_less_iff)

lemma signed_inches_ok: "- 2348 \<le> x \<Longrightarrow> x \<le> 2348 \<Longrightarrow> signed_measure_ok (Inches x)"
proof -
  assume a: "- 2348 \<le> x" "x \<le> 2348"
  have "of_int (- 2147011200) \<le> x * 914400" "x * 914400 \<le> of_int 2147011200"
    using a by simp_all
  from trunc_between [OF this] show ?thesis by (simp add: signed_measure_ok_def)
qed

lemma unsigned_inches_ok: "0 \<le> x \<Longrightarrow> x \<le> 2348 \<Longrightarrow> unsigned_measure_ok (Inches x)"
proof -
  assume a: "0 \<le> x" "x \<le> 2348"
  have "of_int 0 \<le> x * 914400" "x * 914400 \<le> of_int 2147011200"
    using a by simp_all
  from trunc_between [OF this] show ?thesis by (simp add: unsigned_measure_ok_def)
qed

lemma unsigned_inches_negative: "x * 914400 \<le> - 1 \<Longrightarrow> \<not> unsigned_measure_ok (Inches x)"
  using trunc_negative [of "x * 914400"] by (simp add: unsigned_measure_ok_def)

section \<open>The claims\<close>

text \<open>
  Claim C1, as stated: for a bullet text with an even number of \<^verbatim>\<open>**\<close> delimiters the
  runs emitted after the bullet glyph alternate plain, bold, plain, ... The text
  \<^verbatim>\<open>**A****B**\<close> has four delimiters, and both builders emit two bold runs in a row after
  the glyph: the empty segments between the delimiters produce no run.
\<close>

theorem bullet_runs_alternate_counterexample:
  "even (delimiters (ascii ''**A****B**'')) \<and>
   map seg_of (tl (runs (snd (add_bullet Rajnish new_cell (ascii ''**A****B**'') (Pt 9))))) =
     [(ascii ''A'', True), (ascii ''B'', True)] \<and>
   map seg_of (tl (runs (snd (add_compact_bullet new_cell (ascii ''**A****B**''))))) =
     [(ascii ''A'', True), (ascii ''B'', True)] \<and>
   \<not> alternating (map is_bold (tl (runs (snd (add_bullet Rajnish new_cell (ascii ''**A****B**'') (Pt 9)))))) \<and>
   \<not> alternating (map is_bold (tl (runs (snd (add_compact_bullet new_cell (ascii ''**A****B**''))))))"
  by (simp add: delimiters_def ascii_def STAR_def add_bullet_def add_compact_bullet_def Let_def
        add_run_def add_paragraph_def new_paragraph_def new_run_def seg_of_def is_bold_def
        bullet_part_run_def bullet_glyph_run_def compact_bullet_run_def compact_plain_run_def
        compact_bold_run_def alternating_def)

text \<open>
  Claim C1, amended: the runs after the bullet glyph follow the split index. The text is
  split at \<^verbatim>\<open>**\<close>; in source order each segment at an even index becomes a plain run and
  each segment at an odd index a bold run, except that \<^verbatim>\<open>add_bullet\<close> emits no run for an
  empty segment and \<^verbatim>\<open>add_compact_bullet\<close> none for an empty segment at an even index. A
  text without \<^verbatim>\<open>**\<close> becomes one plain run. Hence, when no segment is empty, the runs
  are exactly the segments and alternate plain, bold, plain, ...; with an odd number of
  delimiters a non-empty trailing segment is the last run and is bold; and the text
  \<^verbatim>\<open>Built **React** apps\<close> gives the runs \<^verbatim>\<open>Built \<close> (plain), \<^verbatim>\<open>React\<close> (bold),
  \<^verbatim>\<open> apps\<close> (plain).
\<close>

theorem bullet_runs_follow_split_index:
  "map seg_of (runs (snd (add_compact_bullet c t))) =
     ([BULLET, SPACE], True) #
     (if contains2 STAR t then filter compact_emits (styled_segments t)
      else [(t, False)]) \<and>
   map seg_of (runs (snd (add_bullet tpl c t sz))) =
     ([BULLET, SPACE], True) #
     (if contains2 STAR t then filter bullet_emits (styled_segments t)
      else [(t, False)]) \<and>
   ((\<forall>s \<in> set (split2 STAR t). s \<noteq> []) \<longrightarrow>
      map seg_of (tl (runs (snd (add_compact_bullet c t)))) = styled_segments t \<and>
      map seg_of (tl (runs (snd (add_bullet tpl c t sz)))) = styled_segments t \<and>
      alternating (map is_bold (tl (runs (snd (add_compact_bullet c t))))) \<and>
      alternating (map is_bold (tl (runs (snd (add_bullet tpl c t sz)))))) \<and>
   (odd (delimiters t) \<and> last (split2 STAR t) \<noteq> [] \<longrightarrow>
      seg_of (last (runs (snd (add_compact_bullet c t)))) = (last (split2 STAR t), True) \<and>
      seg_of (last (runs (snd (add_bullet tpl c t sz)))) = (last (split2 STAR t), True)) \<and>
   map seg_of (tl (runs (snd (add_compact_bullet c (ascii ''Built **React** apps''))))) =
     [(ascii ''Built '', False), (ascii ''React'', True), (ascii '' apps'', False)] \<and>
   map seg_of (tl (runs (snd (add_bullet tpl c (ascii ''Built **React** apps'') sz)))) =
     [(ascii ''Built '', False), (ascii ''React'', True), (ascii '' apps'', False)]"
proof -
  let ?rc = "runs (snd (add_compact_bullet c t))" and ?rb = "runs (snd (add_bullet tpl c t sz))"
  note cs = compact_bullet_segments [of c t] and bs = bullet_segments [of tpl c t sz]
  have tlc: "map seg_of (tl ?rc) = tl (map seg_of ?rc)" and tlb: "map seg_of (tl ?rb) = tl (map seg_of ?rb)"
    by (simp_all add: map_tl)
  have all: "map seg_of (tl ?rc) = styled_segments t \<and> map seg_of (tl ?rb) = styled_segments t"
    if ne: "\<forall>s \<in> set (split2 STAR t). s \<noteq> []"
    using filter_all_nonempty [OF ne] styled_unsplit [of t] by (simp add: tlc tlb cs bs)
  have flags: "map is_bold rs = map snd (map seg_of rs)" for rs
    by (simp add: seg_of_def comp_def)
  have alt: "alternating (map is_bold (tl ?rc)) \<and> alternating (map is_bold (tl ?rb))"
    if ne: "\<forall>s \<in> set (split2 STAR t). s \<noteq> []"
    using all [OF ne] alternating_styled [of t] by (simp add: flags)
  have lastseg: "seg_of (last ?rc) = (last (split2 STAR t), True) \<and>
                 seg_of (last ?rb) = (last (split2 STAR t), True)"
    if od: "odd (delimiters t)" and ne: "last (split2 STAR t) \<noteq> []"
  proof -
    have c2: "contains2 STAR t"
      using od by (cases "length (split2 STAR t)") (auto simp: contains2_iff delimiters_def elim: oddE)
    have st: "styled_segments t \<noteq> []"
      using styled_segments_fst [of t] split2_nonempty [of STAR t] by auto
    have l: "last (styled_segments t) = (last (split2 STAR t), True)"
      using od by (simp add: last_styled)
    have lc: "last (filter compact_emits (styled_segments t)) = (last (split2 STAR t), True)"
      using last_filter_keep [OF st, of compact_emits] l by (simp add: compact_emits_def)
    have lb: "last (filter bullet_emits (styled_segments t)) = (last (split2 STAR t), True)"
      using last_filter_keep [OF st, of bullet_emits] l ne by (simp add: bullet_emits_def)
    have mem: "(last (split2 STAR t), True) \<in> set (styled_segments t)"
      using last_in_set [OF st] l by simp
    have fc: "filter compact_emits (styled_segments t) \<noteq> []"
      using mem by (fastforce simp: filter_empty_conv compact_emits_def)
    have fb: "filter bullet_emits (styled_segments t) \<noteq> []"
      using mem ne by (fastforce simp: filter_empty_conv bullet_emits_def)
    have "last (map seg_of ?rc) = (last (split2 STAR t), True)"
      using c2 lc fc by (simp add: cs)
    moreover have "last (map seg_of ?rb) = (last (split2 STAR t), True)"
      using c2 lb fb by (simp add: bs)
    moreover have "?rc \<noteq> []" "?rb \<noteq> []" using cs bs by auto
    ultimately show ?thesis by (simp add: last_map)
  qed
  have ex: "filter compact_emits (styled_segments (ascii ''Built **React** apps'')) =
              [(ascii ''Built '', False), (ascii ''React'', True), (ascii '' apps'', False)]"
           "filter bullet_emits (styled_segments (ascii ''Built **React** apps'')) =
              [(ascii ''Built '', False), (ascii ''React'', True), (ascii '' apps'', False)]"
           "contains2 STAR (ascii ''Built **React** apps'')"
    by (simp_all add: styled_segments_def ascii_def STAR_def compact_emits_def bullet_emits_def)
  have exc: "map seg_of (tl (runs (snd (add_compact_bullet c (ascii ''Built **React** apps''))))) =
     [(ascii ''Built '', False), (ascii ''React'', True), (ascii '' apps'', False)]"
    using compact_bullet_segments [of c "ascii ''Built **React** apps''"] ex
    by (simp add: map_tl)
  have exb: "map seg_of (tl (runs (snd (add_bullet tpl c (ascii ''Built **React** apps'') sz)))) =
     [(ascii ''Built '', False), (ascii ''React'', True), (ascii '' apps'', False)]"
    using bullet_segments [of tpl c "ascii ''Built **React** apps''" sz] ex
    by (simp add: map_tl)
  from cs bs all alt lastseg exc exb show ?thesis by blast
qed

text \<open>
  The amended claim C1 at the text \<^verbatim>\<open>Uses **Redux** and **Jotai\<close>: three delimiters, no
  empty segment, the trailing segment bold.
\<close>

theorem bullet_runs_follow_split_index_witness:
  "[] \<notin> set (split2 STAR (ascii ''Uses **Redux** and **Jotai'')) \<and>
   odd (delimiters (ascii ''Uses **Redux** and **Jotai'')) \<and>
   map seg_of (tl (runs (snd (add_bullet React new_cell (ascii ''Uses **Redux** and **Jotai'') (Pt 9))))) =
     [(ascii ''Uses '', False), (ascii ''Redux'', True), (ascii '' and '', False), (ascii ''Jotai'', True)] \<and>
   map seg_of (tl (runs (snd (add_compact_bullet new_cell (ascii ''Uses **Redux** and **Jotai''))))) =
     [(ascii ''Uses '', False), (ascii ''Redux'', True), (ascii '' and '', False), (ascii ''Jotai'', True)] \<and>
   seg_of (last (runs (snd (add_bullet React new_cell (ascii ''Uses **Redux** and **Jotai'') (Pt 9))))) =
     (ascii ''Jotai'', True) \<and>
   alternating (map is_bold (tl (runs (snd (add_bullet React new_cell (ascii ''Uses **Redux** and **Jotai'') (Pt 9))))))"
proof -
  let ?t = "ascii ''Uses **Redux** and **Jotai''"
  have parts: "split2 STAR ?t = [ascii ''Uses '', ascii ''Redux'', ascii '' and '', ascii ''Jotai'']"
    by (simp add: ascii_def STAR_def)
  have h1: "\<forall>s \<in> set (split2 STAR ?t). s \<noteq> []"
    by (simp add: parts) (simp add: ascii_def)
  have h2: "odd (delimiters ?t)" by (simp add: delimiters_def parts)
  have h3: "last (split2 STAR ?t) \<noteq> []" by (simp add: parts) (simp add: ascii_def)
  have st: "styled_segments ?t =
     [(ascii ''Uses '', False), (ascii ''Redux'', True), (ascii '' and '', False), (ascii ''Jotai'', True)]"
    by (simp add: styled_segments_def parts)
  show ?thesis
    using bullet_runs_follow_split_index [of new_cell ?t React "Pt 9"] h1 h2 h3
    by (simp add: st parts) (simp add: ascii_def)
qed

text \<open>
  Claim C2: every external converter binary is attempted at most once and in the order
  of the candidate list, each process is spawned with a timeout of 30 seconds, the
  function returns \<^verbatim>\<open>True\<close> after a spawn only if that process exited with code zero and
  the PDF file exists afterwards, and after a missing binary or a timeout the next
  candidate, if there is one, is spawned.
\<close>

theorem external_candidates_tried_once:
  assumes "convert_docx_to_pdf sys w0 = (res, s)"
  shows "(\<exists>k \<le> length libreoffice_paths.
            map fst (spawned (log s)) = map soffice_args (take k libreoffice_paths)) \<and>
         distinct (map fst (spawned (log s))) \<and>
         (\<forall>x \<in> set (spawned (log s)). fst (snd x) = 30) \<and>
         (res \<and> spawned (log s) \<noteq> [] \<longrightarrow>
            snd (snd (last (spawned (log s)))) = Exited 0 \<and>
            os_path_exists sys (world s) pdf_file) \<and>
         (\<forall>i. Suc i < length libreoffice_paths \<and> i < length (spawned (log s)) \<and>
              (snd (snd (spawned (log s) ! i)) = FileNotFoundError \<or>
               snd (snd (spawned (log s) ! i)) = TimeoutExpired)
              \<longrightarrow> Suc i < length (spawned (log s)))"
proof (cases "os_path_exists sys w0 docx_file")
  case False
  with assms have "spawned (log s) = []"
    by (auto simp: convert_docx_to_pdf_def Let_def log_emit)
  then show ?thesis by auto
next
  case True
  have dist: "distinct (map soffice_args (take k libreoffice_paths))" for k
  proof -
    have "inj_on soffice_args A" for A by (auto simp: inj_on_def soffice_args_def)
    moreover have "distinct libreoffice_paths"
      by (simp add: libreoffice_paths_def ascii_def)
    ultimately show ?thesis by (simp add: distinct_map)
  qed
  from assms True show ?thesis
  proof (cases rule: convert_cases)
    case native
    from try_docx2pdf_log(1) [OF native(1)] have "spawned (log s) = []" by simp
    then show ?thesis by auto
  next
    case (external s1 ex s2)
    from try_docx2pdf_log(1) [OF external(1)] have s1: "spawned (log s1) = []" by simp
    from try_paths_log [OF external(2)] obtain sp where
      sp: "spawned (log s2) = sp" "length sp \<le> length libreoffice_paths"
          "map fst sp = map soffice_args (take (length sp) libreoffice_paths)"
          "\<forall>x \<in> set sp. fst (snd x) = 30"
          "\<forall>i. Suc i < length libreoffice_paths \<and> i < length sp \<and>
                (snd (snd (sp ! i)) = FileNotFoundError \<or> snd (snd (sp ! i)) = TimeoutExpired)
                \<longrightarrow> Suc i < length sp"
          "ex = ReturnedTrue \<longrightarrow>
             sp \<noteq> [] \<and> snd (snd (last sp)) = Exited 0 \<and> os_path_exists sys (world s2) pdf_file"
      using s1 by auto
    have same: "spawned (log s) = sp"
      using external(3) sp(1)
      by (auto simp: log_emit_all log_emit spawned_append spawned_map_Print)
    have res_ex: "res \<longrightarrow> ex = ReturnedTrue \<and> s = s2" using external(3) by auto
    have a: "\<exists>k \<le> length libreoffice_paths.
            map fst (spawned (log s)) = map soffice_args (take k libreoffice_paths)"
      using sp(2,3) same by blast
    have b: "distinct (map fst (spawned (log s)))" using sp(3) same dist by simp
    have c: "\<forall>x \<in> set (spawned (log s)). fst (snd x) = 30" using sp(4) same by simp
    have d: "res \<and> spawned (log s) \<noteq> [] \<longrightarrow>
            snd (snd (last (spawned (log s)))) = Exited 0 \<and>
            os_path_exists sys (world s) pdf_file"
      using sp(6) same res_ex by auto
    have e: "\<forall>i. Suc i < length libreoffice_paths \<and> i < length (spawned (log s)) \<and>
              (snd (snd (spawned (log s) ! i)) = FileNotFoundError \<or>
               snd (snd (spawned (log s) ! i)) = TimeoutExpired)
              \<longrightarrow> Suc i < length (spawned (log s))"
      using sp(5) same by simp
    from a b c d e show ?thesis by blast
  qed
qed

text \<open>
  Claim C2 in a world where docx2pdf is not installed, the first binary is missing and
  the second one succeeds: two processes are spawned, one per candidate, and the function
  returns \<^verbatim>\<open>True\<close> after the second.
\<close>

theorem external_candidates_tried_once_witness:
  "fst (convert_docx_to_pdf one_missing_then_ok 0) \<and>
   spawned (log (snd (convert_docx_to_pdf one_missing_then_ok 0))) =
     [(soffice_args (libreoffice_paths ! 0), 30, FileNotFoundError),
      (soffice_args (libreoffice_paths ! 1), 30, Exited 0)] \<and>
   distinct (map fst (spawned (log (snd (convert_docx_to_pdf one_missing_then_ok 0))))) \<and>
   os_path_exists one_missing_then_ok (world (snd (convert_docx_to_pdf one_missing_then_ok 0))) pdf_file"
proof -
  let ?r = "convert_docx_to_pdf one_missing_then_ok 0"
  have ev: "?r = (True, \<lparr>world = 2, log =
     [Native (ImportFailed (ascii ''No module named docx2pdf'')),
      Print (ascii ''docx2pdf failed: No module named docx2pdf''),
      Spawn (soffice_args (ascii ''/Applications/LibreOffice.app/Contents/MacOS/soffice'')) 30 FileNotFoundError,
      Spawn (soffice_args (ascii ''libreoffice'')) 30 (Exited 0),
      Print success_line]\<rparr>)"
    by (simp add: convert_docx_to_pdf_def try_docx2pdf_def one_missing_then_ok_def Let_def emit_def
          libreoffice_paths_def docx_file_def pdf_file_def ascii_def)
  have sp: "spawned (log (snd ?r)) =
     [(soffice_args (libreoffice_paths ! 0), 30, FileNotFoundError),
      (soffice_args (libreoffice_paths ! 1), 30, Exited 0)]"
    by (simp add: ev libreoffice_paths_def)
  from external_candidates_tried_once [OF ev]
  show ?thesis using sp by (simp add: ev)
qed



text \<open>
  Claim C10: when the input file does not exist, the function prints the file-not-found
  line and returns \<^verbatim>\<open>False\<close>; that line is the whole log, so the native converter is not
  called, no process is spawned, and no line of the remediation message is printed.
\<close>

theorem missing_input_returns_false:
  assumes "\<not> os_path_exists sys w0 docx_file"
  shows "convert_docx_to_pdf sys w0 =
           (False, \<lparr>world = w0,
                    log = [Print (ascii ''Error: '' @ docx_file @ ascii '' not found!'')]\<rparr>) \<and>
         native_calls (log (snd (convert_docx_to_pdf sys w0))) = [] \<and>
         spawned (log (snd (convert_docx_to_pdf sys w0))) = [] \<and>
         set (printed (log (snd (convert_docx_to_pdf sys w0)))) \<inter> set remediation = {}"
proof -
  let ?err = "ascii ''Error: '' @ docx_file @ ascii '' not found!''"
  have ev: "convert_docx_to_pdf sys w0 = (False, \<lparr>world = w0, log = [Print ?err]\<rparr>)"
    using assms by (simp add: convert_docx_to_pdf_def emit_def)
  have "line_head ?err = 69" by (simp add: line_head_def ascii_def)
  then have "?err \<notin> set remediation" using remediation_heads [of ?err] by auto
  then show ?thesis by (simp add: ev)
qed

text \<open>Claim C10 in a world without any file.\<close>

theorem missing_input_returns_false_witness:
  "\<not> os_path_exists no_input () docx_file \<and>
   convert_docx_to_pdf no_input () =
     (False, \<lparr>world = (),
              log = [Print (ascii ''Error: '' @ docx_file @ ascii '' not found!'')]\<rparr>)"
proof -
  have h: "\<not> os_path_exists no_input () docx_file" by (simp add: no_input_def)
  from missing_input_returns_false [OF h] h show ?thesis by simp
qed

text \<open>
  Claim C3, as stated: in every icon and text row a text containing \<^verbatim>\<open>@\<close> has its spaces
  replaced by non-breaking spaces and its run marked non-breakable.
  \<^verbatim>\<open>add_contact_header_centered\<close> marks the run of such a text but emits the text as it
  is: the space of \<^verbatim>\<open>p k@mail.in\<close> is still in the run.
\<close>

theorem contact_header_keeps_spaces_counterexample:
  "AT_SIGN \<in> set (ascii ''p k@mail.in'') \<and>
   map (\<lambda>r. (run_text r, noBreak r))
     (contact_text_runs (fst (snd
        (add_contact_header_centered Rajnish no_files new_cell [] (ascii ''Pune'')
           (ascii ''p k@mail.in'') (ascii ''99'') (Pt 9))))) =
     [(ascii ''Pune'', False), (ascii ''p k@mail.in'', True), (ascii ''99'', False)] \<and>
   SPACE \<in> set (ascii ''p k@mail.in'') \<and>
   replace_char SPACE NBSP (ascii ''p k@mail.in'') \<noteq> ascii ''p k@mail.in''"
  by (simp add: contact_header_text_runs new_run_def)
     (simp add: ascii_def AT_SIGN_def SPACE_def NBSP_def replace_char_def)

text \<open>
  Claim C3, amended: \<^verbatim>\<open>add_sidebar_text_with_icon\<close> ends its paragraph with the text run;
  when the text contains \<^verbatim>\<open>@\<close> every space of it is replaced by a non-breaking space
  and the run carries \<^verbatim>\<open>w:noBreak\<close>, otherwise the text is emitted as it is and the run
  is not marked. \<^verbatim>\<open>add_contact_header_centered\<close> emits each of its three texts unchanged
  and marks the run of a text with \<^verbatim>\<open>w:noBreak\<close> exactly when the text contains \<^verbatim>\<open>@\<close>.
\<close>

theorem at_sign_marks_text_run:
  "run_text (last (runs (snd (add_sidebar_text_with_icon env c icon_path text sz color icon_size)))) =
     (if AT_SIGN \<in> set text then replace_char SPACE NBSP text else text) \<and>
   noBreak (last (runs (snd (add_sidebar_text_with_icon env c icon_path text sz color icon_size)))) =
     (AT_SIGN \<in> set text) \<and>
   (AT_SIGN \<in> set text \<longrightarrow>
      SPACE \<notin> set (run_text (last (runs (snd
        (add_sidebar_text_with_icon env c icon_path text sz color icon_size)))))) \<and>
   map (\<lambda>r. (run_text r, noBreak r))
     (contact_text_runs (fst (snd
        (add_contact_header_centered tpl env c icon_dir location email phone icon_size)))) =
     [(location, AT_SIGN \<in> set location), (email, AT_SIGN \<in> set email),
      (phone, AT_SIGN \<in> set phone)]"
proof -
  let ?p = "snd (add_sidebar_text_with_icon env c icon_path text sz color icon_size)"
  have l: "last (runs ?p) =
      (if AT_SIGN \<in> set text
       then (new_run (replace_char SPACE NBSP text))\<lparr>font_size := Some sz, font_name := Some Calibri,
              font_color := Some color, noBreak := True\<rparr>
       else (new_run text)\<lparr>font_size := Some sz, font_name := Some Calibri, font_color := Some color\<rparr>)"
    by (simp add: add_sidebar_text_with_icon_def Let_def add_run_def)
  have a: "run_text (last (runs ?p)) = (if AT_SIGN \<in> set text then replace_char SPACE NBSP text else text)"
    by (simp add: l new_run_def)
  have b: "noBreak (last (runs ?p)) = (AT_SIGN \<in> set text)"
    by (simp add: l new_run_def)
  have c: "AT_SIGN \<in> set text \<longrightarrow> SPACE \<notin> set (run_text (last (runs ?p)))"
    using a space_not_in_replaced by simp
  have d: "map (\<lambda>r. (run_text r, noBreak r))
     (contact_text_runs (fst (snd
        (add_contact_header_centered tpl env c icon_dir location email phone icon_size)))) =
     [(location, AT_SIGN \<in> set location), (email, AT_SIGN \<in> set email),
      (phone, AT_SIGN \<in> set phone)]"
    by (simp add: contact_header_text_runs new_run_def)
  from a b c d show ?thesis by blast
qed

text \<open>The amended claim C3 at the sidebar row of an address with a space in it.\<close>

theorem at_sign_marks_text_run_witness:
  "AT_SIGN \<in> set (ascii ''p k@mail.in'') \<and>
   run_text (last (runs (snd (add_sidebar_text_with_icon no_files new_cell (ascii ''/icons/email.png'')
      (ascii ''p k@mail.in'') (Pt 8) (RGBColor 255 255 255) (Pt 6.5))))) =
     ascii ''p'' @ [NBSP] @ ascii ''k@mail.in'' \<and>
   noBreak (last (runs (snd (add_sidebar_text_with_icon no_files new_cell (ascii ''/icons/email.png'')
      (ascii ''p k@mail.in'') (Pt 8) (RGBColor 255 255 255) (Pt 6.5))))) \<and>
   SPACE \<notin> set (run_text (last (runs (snd (add_sidebar_text_with_icon no_files new_cell
      (ascii ''/icons/email.png'') (ascii ''p k@mail.in'') (Pt 8) (RGBColor 255 255 255) (Pt 6.5))))))"
proof -
  have h: "AT_SIGN \<in> set (ascii ''p k@mail.in'')" by (simp add: ascii_def AT_SIGN_def)
  have r: "replace_char SPACE NBSP (ascii ''p k@mail.in'') = ascii ''p'' @ [NBSP] @ ascii ''k@mail.in''"
    by (simp add: replace_char_def ascii_def SPACE_def NBSP_def)
  from at_sign_marks_text_run [of no_files new_cell "ascii ''/icons/email.png''" "ascii ''p k@mail.in''"
      "Pt 8" "RGBColor 255 255 255" "Pt 6.5"] h r
  show ?thesis by simp (simp add: ascii_def SPACE_def NBSP_def)
qed

text \<open>
  Claim C4: a builder given an icon that does not resolve to an existing file does not
  fail: it appends a paragraph that holds the text run and no picture run.
  For \<^verbatim>\<open>add_sidebar_text_with_icon\<close> the icon path does not exist; the paragraph holds the
  small space run and the text run. For \<^verbatim>\<open>add_section_header\<close> and
  \<^verbatim>\<open>add_contact_header_centered\<close> the icon key does not resolve (\<^verbatim>\<open>get_icon_path\<close> gives
  \<^verbatim>\<open>None\<close>, as it does whenever the file of the key does not exist); the paragraph holds
  the label, or the three contact texts, no picture, and nothing is printed.
\<close>

theorem missing_icon_renders_text_only:
  "(\<not> path_exists env icon_path \<longrightarrow>
      fst (add_sidebar_text_with_icon env c icon_path t sz color icon_size) =
        add_paragraph c (snd (add_sidebar_text_with_icon env c icon_path t sz color icon_size)) \<and>
      image_runs (snd (add_sidebar_text_with_icon env c icon_path t sz color icon_size)) = [] \<and>
      map run_text (runs (snd (add_sidebar_text_with_icon env c icon_path t sz color icon_size))) =
        [[SPACE], if AT_SIGN \<in> set t then replace_char SPACE NBSP t else t]) \<and>
   (get_icon_path env icon_key = None \<longrightarrow>
      map run_text (runs (fst (snd (add_section_header tpl env upper c t (Some icon_key) is_left_column)))) =
        [upper t] \<and>
      image_runs (fst (snd (add_section_header tpl env upper c t (Some icon_key) is_left_column))) = [] \<and>
      snd (snd (add_section_header tpl env upper c t (Some icon_key) is_left_column)) = [] \<and>
      fst (snd (add_section_header tpl env upper c t (Some icon_key) is_left_column))
        \<in> set (paragraphs (fst (add_section_header tpl env upper c t (Some icon_key) is_left_column)))) \<and>
   (get_icon_path env (ascii ''location'') = None \<and> get_icon_path env (ascii ''email'') = None \<and>
    get_icon_path env (ascii ''phone'') = None \<longrightarrow>
      fst (add_contact_header_centered tpl env c icon_dir location email phone icon_size) =
        add_paragraph c (fst (snd (add_contact_header_centered tpl env c icon_dir location email phone icon_size))) \<and>
      image_runs (fst (snd (add_contact_header_centered tpl env c icon_dir location email phone icon_size))) = [] \<and>
      map run_text (contact_text_runs (fst (snd
        (add_contact_header_centered tpl env c icon_dir location email phone icon_size)))) =
        [location, email, phone] \<and>
      snd (snd (add_contact_header_centered tpl env c icon_dir location email phone icon_size)) = []) \<and>
   (\<forall>icon_file. map_of ICON_FILES icon_key = Some icon_file \<and>
        \<not> path_exists env (icon_file_path env icon_file) \<longrightarrow> get_icon_path env icon_key = None)"
proof -
  have a: "fst (add_sidebar_text_with_icon env c icon_path t sz color icon_size) =
        add_paragraph c (snd (add_sidebar_text_with_icon env c icon_path t sz color icon_size)) \<and>
      image_runs (snd (add_sidebar_text_with_icon env c icon_path t sz color icon_size)) = [] \<and>
      map run_text (runs (snd (add_sidebar_text_with_icon env c icon_path t sz color icon_size))) =
        [[SPACE], if AT_SIGN \<in> set t then replace_char SPACE NBSP t else t]"
    if "\<not> path_exists env icon_path"
    using that
    by (simp add: add_sidebar_text_with_icon_def Let_def image_runs_def add_run_def new_run_def
          new_paragraph_def)
  have b: "map run_text (runs (fst (snd (add_section_header tpl env upper c t (Some icon_key) is_left_column)))) =
        [upper t] \<and>
      image_runs (fst (snd (add_section_header tpl env upper c t (Some icon_key) is_left_column))) = [] \<and>
      snd (snd (add_section_header tpl env upper c t (Some icon_key) is_left_column)) = [] \<and>
      fst (snd (add_section_header tpl env upper c t (Some icon_key) is_left_column))
        \<in> set (paragraphs (fst (add_section_header tpl env upper c t (Some icon_key) is_left_column)))"
    if "get_icon_path env icon_key = None"
    using that
    by (simp add: add_section_header_def Let_def image_runs_def add_run_def new_run_def
          new_paragraph_def add_paragraph_def)
  have d: "fst (add_contact_header_centered tpl env c icon_dir location email phone icon_size) =
        add_paragraph c (fst (snd (add_contact_header_centered tpl env c icon_dir location email phone icon_size))) \<and>
      image_runs (fst (snd (add_contact_header_centered tpl env c icon_dir location email phone icon_size))) = [] \<and>
      map run_text (contact_text_runs (fst (snd
        (add_contact_header_centered tpl env c icon_dir location email phone icon_size)))) =
        [location, email, phone] \<and>
      snd (snd (add_contact_header_centered tpl env c icon_dir location email phone icon_size)) = []"
    if h: "get_icon_path env (ascii ''location'') = None \<and> get_icon_path env (ascii ''email'') = None \<and>
       get_icon_path env (ascii ''phone'') = None"
  proof -
    let ?p0 = "new_paragraph\<lparr>par_alignment := Some CENTER,
                space_after := Some (Pt (case tpl of Rajnish \<Rightarrow> 6 | React \<Rightarrow> 3))\<rparr>"
    let ?items = "[(ascii ''location'', location), (ascii ''email'', email), (ascii ''phone'', phone)]"
    let ?l = "contact_items_loop env icon_size (length ?items) 0 ?items (?p0, [])"
    have r: "add_contact_header_centered tpl env c icon_dir location email phone icon_size =
               (add_paragraph c (fst ?l), fst ?l, snd ?l)"
      by (simp add: add_contact_header_centered_def Let_def split: prod.splits)
    have "\<forall>k \<in> set (map fst ?items). get_icon_path env k = None" using h by simp
    from contact_loop_no_icons [OF this, of icon_size "length ?items" 0 ?p0 "[]"]
    have l: "image_runs (fst ?l) = []" "snd ?l = []"
      by (simp_all add: image_runs_def new_paragraph_def)
    have t: "map run_text (contact_text_runs (fst (snd
        (add_contact_header_centered tpl env c icon_dir location email phone icon_size)))) =
        [location, email, phone]"
      by (simp add: contact_header_text_runs new_run_def)
    have f: "fst (add_contact_header_centered tpl env c icon_dir location email phone icon_size) =
        add_paragraph c (fst (snd (add_contact_header_centered tpl env c icon_dir location email phone icon_size)))"
      by (simp only: r fst_conv snd_conv)
    have i: "image_runs (fst (snd (add_contact_header_centered tpl env c icon_dir location email phone icon_size))) = []"
      by (simp only: r fst_conv snd_conv l)
    have o: "snd (snd (add_contact_header_centered tpl env c icon_dir location email phone icon_size)) = []"
      by (simp only: r fst_conv snd_conv l)
    from f i t o show ?thesis by blast
  qed
  have e: "\<forall>icon_file. map_of ICON_FILES icon_key = Some icon_file \<and>
        \<not> path_exists env (icon_file_path env icon_file) \<longrightarrow> get_icon_path env icon_key = None"
    using get_icon_path_missing by blast
  from a b d e show ?thesis by blast
qed

text \<open>Claim C4 in a file system without any file.\<close>

theorem missing_icon_renders_text_only_witness:
  "\<not> path_exists no_files (ascii ''/Users/prabhat/Desktop/resume/github.png'') \<and>
   get_icon_path no_files (ascii ''skills'') = None \<and>
   map run_text (runs (snd (add_sidebar_text_with_icon no_files new_cell
       (ascii ''/Users/prabhat/Desktop/resume/github.png'') (ascii ''GitHub'') (Pt 8.5)
       (RGBColor 255 255 255) (Pt 6.5)))) = [[SPACE], ascii ''GitHub''] \<and>
   image_runs (snd (add_sidebar_text_with_icon no_files new_cell
       (ascii ''/Users/prabhat/Desktop/resume/github.png'') (ascii ''GitHub'') (Pt 8.5)
       (RGBColor 255 255 255) (Pt 6.5))) = [] \<and>
   map run_text (runs (fst (snd (add_section_header Rajnish no_files ascii_upper new_cell
       (ascii ''Skills'') (Some (ascii ''skills'')) True)))) = [ascii ''SKILLS''] \<and>
   image_runs (fst (snd (add_section_header Rajnish no_files ascii_upper new_cell
       (ascii ''Skills'') (Some (ascii ''skills'')) True))) = [] \<and>
   map run_text (contact_text_runs (fst (snd (add_contact_header_centered Rajnish no_files new_cell
       [] (ascii ''Pune'') (ascii ''pk@mail.in'') (ascii ''99'') (Pt 9))))) =
     [ascii ''Pune'', ascii ''pk@mail.in'', ascii ''99''] \<and>
   image_runs (fst (snd (add_contact_header_centered Rajnish no_files new_cell
       [] (ascii ''Pune'') (ascii ''pk@mail.in'') (ascii ''99'') (Pt 9)))) = []"
proof -
  have h1: "\<not> path_exists no_files (ascii ''/Users/prabhat/Desktop/resume/github.png'')"
    by (simp add: no_files_def)
  have h2: "get_icon_path no_files k = None" for k
    by (simp add: get_icon_path_def no_files_def Let_def split: option.splits)
  have at: "AT_SIGN \<notin> set (ascii ''GitHub'')" by (simp add: ascii_def AT_SIGN_def)
  have up: "ascii_upper (ascii ''Skills'') = ascii ''SKILLS''"
    by (simp add: ascii_upper_def ascii_def)
  have sidebar: "map run_text (runs (snd (add_sidebar_text_with_icon no_files new_cell
       (ascii ''/Users/prabhat/Desktop/resume/github.png'') (ascii ''GitHub'') (Pt 8.5)
       (RGBColor 255 255 255) (Pt 6.5)))) = [[SPACE], ascii ''GitHub''] \<and>
     image_runs (snd (add_sidebar_text_with_icon no_files new_cell
       (ascii ''/Users/prabhat/Desktop/resume/github.png'') (ascii ''GitHub'') (Pt 8.5)
       (RGBColor 255 255 255) (Pt 6.5))) = []"
    using missing_icon_renders_text_only [where env = no_files and c = new_cell
        and icon_path = "ascii ''/Users/prabhat/Desktop/resume/github.png''"
        and t = "ascii ''GitHub''" and sz = "Pt 8.5" and color = "RGBColor 255 255 255"
        and icon_size = "Pt 6.5"] h1 at
    by simp
  have others: "map run_text (runs (fst (snd (add_section_header Rajnish no_files ascii_upper new_cell
       (ascii ''Skills'') (Some (ascii ''skills'')) True)))) = [ascii ''SKILLS''] \<and>
     image_runs (fst (snd (add_section_header Rajnish no_files ascii_upper new_cell
       (ascii ''Skills'') (Some (ascii ''skills'')) True))) = [] \<and>
     map run_text (contact_text_runs (fst (snd (add_contact_header_centered Rajnish no_files new_cell
       [] (ascii ''Pune'') (ascii ''pk@mail.in'') (ascii ''99'') (Pt 9))))) =
       [ascii ''Pune'', ascii ''pk@mail.in'', ascii ''99''] \<and>
     image_runs (fst (snd (add_contact_header_centered Rajnish no_files new_cell
       [] (ascii ''Pune'') (ascii ''pk@mail.in'') (ascii ''99'') (Pt 9)))) = []"
    using missing_icon_renders_text_only [where env = no_files and c = new_cell
        and t = "ascii ''Skills''" and icon_key = "ascii ''skills''" and tpl = Rajnish
        and upper = ascii_upper and is_left_column = True and icon_dir = "[]"
        and location = "ascii ''Pune''" and email = "ascii ''pk@mail.in''"
        and phone = "ascii ''99''" and icon_size = "Pt 9"] h2 up
    by simp
  from h1 h2 sidebar others show ?thesis by blast
qed

text \<open>
  Claim C7, as stated: the rule under a section header is shorter in the left column than
  in the right column. In create_resume_react_template.py \<^verbatim>\<open>add_section_header\<close> gives the
  rule paragraph a right indent of half an inch in both columns.
\<close>

theorem react_rule_same_in_both_columns_counterexample:
  "right_indent (last (paragraphs (fst (add_section_header React no_files ascii_upper new_cell
      (ascii ''Skills'') None True)))) = Some (Inches 0.5) \<and>
   right_indent (last (paragraphs (fst (add_section_header React no_files ascii_upper new_cell
      (ascii ''Skills'') None False)))) = Some (Inches 0.5) \<and>
   \<not> emu (Inches 0.5) < emu (Inches 0.5)"
  by (simp add: add_section_header_def Let_def add_paragraph_def add_run_def new_paragraph_def)

text \<open>
  Claim C7, amended: the label run of a section header is the upper-cased text, in bold
  (\<^verbatim>\<open>add_section_header\<close> of both templates, \<^verbatim>\<open>add_sidebar_header\<close>, \<^verbatim>\<open>add_main_header\<close>).
  \<^verbatim>\<open>add_section_header\<close> ends with the rule paragraph, which carries the accent border;
  in create_resume_rajnish_template.py its right indent is 1.5 inches (1371600 EMU) in the
  left column and 0.5 inches (457200 EMU) in the right column, so the left rule is the
  shorter one; in create_resume_react_template.py it is 0.5 inches in both columns.
\<close>

theorem section_header_label_and_rule:
  "seg_of (last (runs (fst (snd (add_section_header tpl env upper c text icon_key is_left_column))))) =
     (upper text, True) \<and>
   right_indent (last (paragraphs (fst (add_section_header tpl env upper c text icon_key is_left_column)))) =
     Some (Inches (case tpl of Rajnish \<Rightarrow> (if is_left_column then 1.5 else 0.5) | React \<Rightarrow> 0.5)) \<and>
   inserted_pPr (last (paragraphs (fst (add_section_header tpl env upper c text icon_key is_left_column)))) =
     [accent_border] \<and>
   map_option emu (right_indent (last (paragraphs (fst
     (add_section_header Rajnish env upper c text icon_key True))))) = Some 1371600 \<and>
   map_option emu (right_indent (last (paragraphs (fst
     (add_section_header Rajnish env upper c text icon_key False))))) = Some 457200 \<and>
   map_option emu (right_indent (last (paragraphs (fst
     (add_section_header React env upper c text icon_key is_left_column))))) = Some 457200 \<and>
   seg_of (last (runs (snd (add_sidebar_header upper c text is_main)))) = (upper text, True) \<and>
   seg_of (last (runs (snd (add_main_header upper c text)))) = (upper text, True)"
proof -
  have label: "seg_of (last (runs (fst (snd (add_section_header t e upper c text icon_key b))))) =
     (upper text, True)" for t e b
    by (simp add: add_section_header_def Let_def add_run_def seg_of_def is_bold_def new_run_def
          split: prod.splits)
  have rule: "last (paragraphs (fst (add_section_header t e upper c text icon_key b))) =
     (add_run (new_paragraph\<lparr>space_before := Some (Pt 0),
                 space_after := Some (Pt (case t of Rajnish \<Rightarrow> 4 | React \<Rightarrow> 2)),
                 line_spacing := Some 1.0, left_indent := Some (Pt 0),
                 right_indent := Some (Inches (case t of
                    Rajnish \<Rightarrow> (if b then 1.5 else 0.5) | React \<Rightarrow> 0.5))\<rparr>)
        ((new_run [NBSP])\<lparr>font_size := Some (Pt 1)\<rparr>))\<lparr>inserted_pPr := [accent_border]\<rparr>" for t e b
    by (cases t; cases b)
       (simp_all add: add_section_header_def Let_def add_paragraph_def add_run_def new_paragraph_def
          split: prod.splits)
  have e1: "emu (Inches 1.5) = 1371600" and e2: "emu (Inches 0.5) = 457200"
    by (simp_all add: trunc_def)
  have side: "seg_of (last (runs (snd (add_sidebar_header upper c text is_main)))) = (upper text, True)"
    by (simp add: add_sidebar_header_def Let_def add_run_def seg_of_def is_bold_def new_run_def)
  have main: "seg_of (last (runs (snd (add_main_header upper c text)))) = (upper text, True)"
    by (simp add: add_main_header_def Let_def add_run_def seg_of_def is_bold_def new_run_def)
  have r1: "right_indent (last (paragraphs (fst (add_section_header t e upper c text icon_key b)))) =
     Some (Inches (case t of Rajnish \<Rightarrow> (if b then 1.5 else 0.5) | React \<Rightarrow> 0.5))" for t e b
    by (simp add: rule add_run_def)
  have r2: "inserted_pPr (last (paragraphs (fst (add_section_header t e upper c text icon_key b)))) =
     [accent_border]" for t e b
    by (simp add: rule add_run_def)
  show ?thesis
    using label [of tpl env is_left_column] r1 [of tpl env is_left_column] r2 [of tpl env is_left_column]
      r1 [of Rajnish env True] r1 [of Rajnish env False] r1 [of React env is_left_column]
      e1 e2 side main
    by simp
qed

text \<open>The amended claim C7 at the header \<^verbatim>\<open>Skills\<close> of the left column.\<close>

theorem section_header_label_and_rule_witness:
  "seg_of (last (runs (fst (snd (add_section_header Rajnish no_files ascii_upper new_cell
      (ascii ''Skills'') None True))))) = (ascii ''SKILLS'', True) \<and>
   map_option emu (right_indent (last (paragraphs (fst (add_section_header Rajnish no_files
      ascii_upper new_cell (ascii ''Skills'') None True))))) = Some 1371600 \<and>
   map_option emu (right_indent (last (paragraphs (fst (add_section_header Rajnish no_files
      ascii_upper new_cell (ascii ''Skills'') None False))))) = Some 457200"
proof -
  have up: "ascii_upper (ascii ''Skills'') = ascii ''SKILLS''"
    by (simp add: ascii_upper_def ascii_def)
  from section_header_label_and_rule [where tpl = Rajnish and env = no_files
      and upper = ascii_upper and c = new_cell and icon_key = None and is_left_column = True,
      of "ascii ''Skills''"]
  show ?thesis unfolding up by blast
qed



text \<open>
  Claim C8, as stated: \<^verbatim>\<open>set_margins\<close> fails when a margin is negative. With a top margin
  of minus half an inch the call returns normally and the section holds the negative
  margin.
\<close>

theorem negative_top_margin_accepted_counterexample:
  "set_margins sample_section (- 0.5) 0.3 0.3 0.15 =
     Inr \<lparr>top_margin = Some (Inches (- 0.5)), bottom_margin = Some (Inches 0.3),
          left_margin = Some (Inches 0.3), right_margin = Some (Inches 0.15)\<rparr>"
  by (simp add: set_margins_def sample_section_def signed_measure_ok_def unsigned_measure_ok_def
        trunc_def Let_def)

text \<open>
  Claim C8, amended: the call fails at once, with the \<^verbatim>\<open>ValueError\<close> of python-docx, when
  the left or the right margin is negative (by one EMU or more, that is
  \<^verbatim>\<open>int(x * 914400) < 0\<close>). A negative top or bottom margin is not rejected: for top and
  bottom margins between -2348 and 2348 inches and left and right margins between 0 and
  2348 inches the call returns normally and the section holds the four margins as they
  were passed.
\<close>

theorem set_margins_rejects_negative_left_right_only:
  "(left_in * 914400 \<le> - 1 \<or> right_in * 914400 \<le> - 1 \<longrightarrow>
      set_margins sec top_in bottom_in left_in right_in = Inl ValueError) \<and>
   (- 2348 \<le> top_in \<and> top_in \<le> 2348 \<and> - 2348 \<le> bottom_in \<and> bottom_in \<le> 2348 \<and>
    0 \<le> left_in \<and> left_in \<le> 2348 \<and> 0 \<le> right_in \<and> right_in \<le> 2348 \<longrightarrow>
      set_margins sec top_in bottom_in left_in right_in =
        Inr (sec\<lparr>top_margin := Some (Inches top_in), bottom_margin := Some (Inches bottom_in),
                 left_margin := Some (Inches left_in), right_margin := Some (Inches right_in)\<rparr>))"
proof -
  have a: "set_margins sec top_in bottom_in left_in right_in = Inl ValueError"
    if "left_in * 914400 \<le> - 1 \<or> right_in * 914400 \<le> - 1"
    using that unsigned_inches_negative [of left_in] unsigned_inches_negative [of right_in]
    by (auto simp: set_margins_def Let_def)
  have b: "set_margins sec top_in bottom_in left_in right_in =
        Inr (sec\<lparr>top_margin := Some (Inches top_in), bottom_margin := Some (Inches bottom_in),
                 left_margin := Some (Inches left_in), right_margin := Some (Inches right_in)\<rparr>)"
    if "- 2348 \<le> top_in \<and> top_in \<le> 2348 \<and> - 2348 \<le> bottom_in \<and> bottom_in \<le> 2348 \<and>
        0 \<le> left_in \<and> left_in \<le> 2348 \<and> 0 \<le> right_in \<and> right_in \<le> 2348"
    using that signed_inches_ok [of top_in] signed_inches_ok [of bottom_in]
      unsigned_inches_ok [of left_in] unsigned_inches_ok [of right_in]
    by (simp add: set_margins_def Let_def)
  from a b show ?thesis by blast
qed

text \<open>
  The amended claim C8 at a negative left margin, a negative right margin, and negative
  top and bottom margins.
\<close>

theorem set_margins_rejects_negative_left_right_only_witness:
  "set_margins sample_section 0.2 0.3 (- 0.3) 0.15 = Inl ValueError \<and>
   set_margins sample_section 0.2 0.3 0.3 (- 0.15) = Inl ValueError \<and>
   set_margins sample_section (- 0.5) (- 0.25) 0.3 0.15 =
     Inr \<lparr>top_margin = Some (Inches (- 0.5)), bottom_margin = Some (Inches (- 0.25)),
          left_margin = Some (Inches 0.3), right_margin = Some (Inches 0.15)\<rparr>"
proof -
  have 1: "set_margins sample_section 0.2 0.3 (- 0.3) 0.15 = Inl ValueError"
    using set_margins_rejects_negative_left_right_only
      [of "- 0.3" "0.15" sample_section "0.2" "0.3"] by simp
  have 2: "set_margins sample_section 0.2 0.3 0.3 (- 0.15) = Inl ValueError"
    using set_margins_rejects_negative_left_right_only
      [of "0.3" "- 0.15" sample_section "0.2" "0.3"] by simp
  have 3: "set_margins sample_section (- 0.5) (- 0.25) 0.3 0.15 =
     Inr \<lparr>top_margin = Some (Inches (- 0.5)), bottom_margin = Some (Inches (- 0.25)),
          left_margin = Some (Inches 0.3), right_margin = Some (Inches 0.15)\<rparr>"
    using set_margins_rejects_negative_left_right_only
      [of "0.3" "0.15" sample_section "- 0.5" "- 0.25"] by (simp add: sample_section_def)
  from 1 2 3 show ?thesis by blast
qed

text \<open>
  Claim C9, as stated: a block function adds one paragraph after the existing ones and
  returns it. \<^verbatim>\<open>add_section_header\<close> adds two paragraphs, the label and the rule, and
  returns the label: on a fresh cell the result has two paragraphs more, and the returned
  paragraph is not the last one.
\<close>

theorem section_header_appends_two_counterexample:
  "length (paragraphs (fst (add_section_header Rajnish no_files ascii_upper new_cell
      (ascii ''Skills'') None False))) = length (paragraphs new_cell) + 2 \<and>
   last (paragraphs (fst (add_section_header Rajnish no_files ascii_upper new_cell
      (ascii ''Skills'') None False))) \<noteq>
     fst (snd (add_section_header Rajnish no_files ascii_upper new_cell (ascii ''Skills'') None False)) \<and>
   fst (add_section_header Rajnish no_files ascii_upper new_cell (ascii ''Skills'') None False) \<noteq>
     new_cell\<lparr>paragraphs := paragraphs new_cell @
       [fst (snd (add_section_header Rajnish no_files ascii_upper new_cell (ascii ''Skills'') None False))]\<rparr>"
  by (simp add: add_section_header_def Let_def add_paragraph_def add_run_def new_paragraph_def
        new_cell_def new_run_def)

text \<open>
  Claim C9, amended: every block function only appends. The cell after the call is the
  cell before it with new paragraphs added at the end; the paragraphs already there, and
  the properties of the cell, are unchanged. Every block function appends exactly one
  paragraph and returns it, except \<^verbatim>\<open>add_section_header\<close>, which appends the label paragraph
  and then the rule paragraph and returns the label paragraph.
\<close>

theorem builders_append_only:
  "fst (add_sidebar_header upper c t is_main) =
     c\<lparr>paragraphs := paragraphs c @ [snd (add_sidebar_header upper c t is_main)]\<rparr> \<and>
   fst (add_main_header upper c t) =
     c\<lparr>paragraphs := paragraphs c @ [snd (add_main_header upper c t)]\<rparr> \<and>
   fst (add_sidebar_text c t sz color) =
     c\<lparr>paragraphs := paragraphs c @ [snd (add_sidebar_text c t sz color)]\<rparr> \<and>
   fst (add_sidebar_text_with_icon env c icon_path t sz color icon_size) =
     c\<lparr>paragraphs := paragraphs c @
         [snd (add_sidebar_text_with_icon env c icon_path t sz color icon_size)]\<rparr> \<and>
   fst (add_sidebar_bullet c t sz) =
     c\<lparr>paragraphs := paragraphs c @ [snd (add_sidebar_bullet c t sz)]\<rparr> \<and>
   fst (add_compact_bullet c t) =
     c\<lparr>paragraphs := paragraphs c @ [snd (add_compact_bullet c t)]\<rparr> \<and>
   fst (add_short_bold_line c) =
     c\<lparr>paragraphs := paragraphs c @ [snd (add_short_bold_line c)]\<rparr> \<and>
   fst (add_body_text tpl c t sz) =
     c\<lparr>paragraphs := paragraphs c @ [snd (add_body_text tpl c t sz)]\<rparr> \<and>
   fst (add_bullet tpl c t sz) =
     c\<lparr>paragraphs := paragraphs c @ [snd (add_bullet tpl c t sz)]\<rparr> \<and>
   fst (add_contact_header_centered tpl env c icon_dir location email phone icon_size) =
     c\<lparr>paragraphs := paragraphs c @
         [fst (snd (add_contact_header_centered tpl env c icon_dir location email phone icon_size))]\<rparr> \<and>
   fst (add_section_header tpl env upper c t icon_key is_left_column) =
     c\<lparr>paragraphs := paragraphs c @
         [fst (snd (add_section_header tpl env upper c t icon_key is_left_column)),
          last (paragraphs (fst (add_section_header tpl env upper c t icon_key is_left_column)))]\<rparr>"
proof -
  have 1: "fst (add_sidebar_header upper c t is_main) =
     c\<lparr>paragraphs := paragraphs c @ [snd (add_sidebar_header upper c t is_main)]\<rparr>"
    by (simp add: add_sidebar_header_def Let_def add_paragraph_def)
  have 2: "fst (add_main_header upper c t) =
     c\<lparr>paragraphs := paragraphs c @ [snd (add_main_header upper c t)]\<rparr>"
    by (simp add: add_main_header_def Let_def add_paragraph_def)
  have 3: "fst (add_sidebar_text c t sz color) =
     c\<lparr>paragraphs := paragraphs c @ [snd (add_sidebar_text c t sz color)]\<rparr>"
    by (simp add: add_sidebar_text_def Let_def add_paragraph_def)
  have 4: "fst (add_sidebar_text_with_icon env c icon_path t sz color icon_size) =
     c\<lparr>paragraphs := paragraphs c @
         [snd (add_sidebar_text_with_icon env c icon_path t sz color icon_size)]\<rparr>"
    by (simp add: add_sidebar_text_with_icon_def Let_def add_paragraph_def)
  have 5: "fst (add_sidebar_bullet c t sz) =
     c\<lparr>paragraphs := paragraphs c @ [snd (add_sidebar_bullet c t sz)]\<rparr>"
    by (simp add: add_sidebar_bullet_def Let_def add_paragraph_def)
  have 6: "fst (add_compact_bullet c t) =
     c\<lparr>paragraphs := paragraphs c @ [snd (add_compact_bullet c t)]\<rparr>"
    by (simp add: add_compact_bullet_def Let_def add_paragraph_def)
  have 7: "fst (add_short_bold_line c) =
     c\<lparr>paragraphs := paragraphs c @ [snd (add_short_bold_line c)]\<rparr>"
    by (simp add: add_short_bold_line_def Let_def add_paragraph_def)
  have 8: "fst (add_body_text tpl c t sz) =
     c\<lparr>paragraphs := paragraphs c @ [snd (add_body_text tpl c t sz)]\<rparr>"
    by (simp add: add_body_text_def Let_def add_paragraph_def)
  have 9: "fst (add_bullet tpl c t sz) =
     c\<lparr>paragraphs := paragraphs c @ [snd (add_bullet tpl c t sz)]\<rparr>"
    by (simp add: add_bullet_def Let_def add_paragraph_def)
  have 10: "fst (add_contact_header_centered tpl env c icon_dir location email phone icon_size) =
     c\<lparr>paragraphs := paragraphs c @
         [fst (snd (add_contact_header_centered tpl env c icon_dir location email phone icon_size))]\<rparr>"
    using contact_header_result [of tpl env c icon_dir location email phone icon_size]
    by (simp add: add_paragraph_def)
  have 11: "fst (add_section_header tpl env upper c t icon_key is_left_column) =
     c\<lparr>paragraphs := paragraphs c @
         [fst (snd (add_section_header tpl env upper c t icon_key is_left_column)),
          last (paragraphs (fst (add_section_header tpl env upper c t icon_key is_left_column)))]\<rparr>"
  proof -
    from section_header_result [of tpl env upper c t icon_key is_left_column]
    obtain border_p where
      r: "fst (add_section_header tpl env upper c t icon_key is_left_column) =
            add_paragraph (add_paragraph c
              (fst (snd (add_section_header tpl env upper c t icon_key is_left_column)))) border_p"
      by blast
    have "last (paragraphs (fst (add_section_header tpl env upper c t icon_key is_left_column))) = border_p"
      by (subst r) (simp add: add_paragraph_def)
    then show ?thesis by (subst r) (simp add: add_paragraph_def)
  qed
  from 1 2 3 4 5 6 7 8 9 10 11 show ?thesis by blast
qed

end
